theory Spec2Isabelle
  imports Complex_Main
begin

section \<open>Python values\<close>

text \<open>
  The generator of \<^verbatim>\<open>src/data_generation.py\<close> builds a pandas table of order records and
  corrupts a fraction of its rows. A Python \<^verbatim>\<open>str\<close> is a sequence of code points; every
  string of this program lies in Latin-1, so a string is modelled as a \<^typ>\<open>string\<close> with one
  \<^typ>\<open>char\<close> per code point (\<open>CHR 0xE9\<close> is e-acute). Python's \<^verbatim>\<open>float\<close> is idealised as
  \<^typ>\<open>real\<close>: the arithmetic is exact, and \<^verbatim>\<open>nan\<close> is a value of its own. A
  \<^verbatim>\<open>datetime\<close> is the number of microseconds since 1970-01-01 00:00:00, unbounded.
\<close>

datatype error = KeyError string | ValueError | ZeroDivisionError | IndexError | Unmodelled

datatype val = PyStr string | PyInt int | PyFloat real | PyDate int | PyNaN

section \<open>Reference tables (\<^verbatim>\<open>_setup_mexico_data\<close>)\<close>

definition estados_mexico :: "string list" where
  "estados_mexico =
    [''Aguascalientes'', ''Baja California'', ''Baja California Sur'',
     ''Campeche'', ''Chiapas'', ''Chihuahua'', ''Coahuila'', ''Colima'',
     ''Ciudad de M'' @ [CHR 0xE9] @ ''xico'', ''Durango'', ''Guanajuato'', ''Guerrero'',
     ''Hidalgo'', ''Jalisco'', ''M'' @ [CHR 0xE9] @ ''xico'', ''Michoac'' @ [CHR 0xE1] @ ''n'',
     ''Morelos'', ''Nayarit'', ''Nuevo Le'' @ [CHR 0xF3] @ ''n'', ''Oaxaca'', ''Puebla'',
     ''Quer'' @ [CHR 0xE9] @ ''taro'', ''Quintana Roo'', ''San Luis Potos'' @ [CHR 0xED],
     ''Sinaloa'', ''Sonora'', ''Tabasco'', ''Tamaulipas'', ''Tlaxcala'', ''Veracruz'',
     ''Yucat'' @ [CHR 0xE1] @ ''n'', ''Zacatecas'']"

text \<open>A Python dict keeps its insertion order: the tables are association lists.\<close>

definition regiones :: "(string \<times> string list) list" where
  "regiones =
    [(''Centro'', [''Ciudad de M'' @ [CHR 0xE9] @ ''xico'', ''M'' @ [CHR 0xE9] @ ''xico'',
                   ''Puebla'', ''Morelos'', ''Tlaxcala'', ''Hidalgo'',
                   ''Quer'' @ [CHR 0xE9] @ ''taro'']),
     (''Norte'', [''Nuevo Le'' @ [CHR 0xF3] @ ''n'', ''Chihuahua'', ''Coahuila'', ''Sonora'',
                  ''Tamaulipas'', ''Baja California'', ''Baja California Sur'']),
     (''Occidente'', [''Jalisco'', ''Michoac'' @ [CHR 0xE1] @ ''n'', ''Guanajuato'',
                      ''Aguascalientes'', ''Colima'', ''Nayarit'', ''Sinaloa'']),
     (''Sur'', [''Guerrero'', ''Oaxaca'', ''Chiapas'', ''Veracruz'', ''Tabasco'']),
     (''Pen'' @ [CHR 0xED] @ ''nsula'', [''Yucat'' @ [CHR 0xE1] @ ''n'', ''Quintana Roo'',
                                         ''Campeche''])]"

record transportista_info =
  t_prob :: real
  costo_base :: int
  velocidad :: real

definition transportistas :: "(string \<times> transportista_info) list" where
  "transportistas =
    [(''Estafeta'', \<lparr>t_prob = 28/100, costo_base = 120, velocidad = 7/10\<rparr>),
     (''DHL'', \<lparr>t_prob = 22/100, costo_base = 180, velocidad = 9/10\<rparr>),
     (''FedEx'', \<lparr>t_prob = 18/100, costo_base = 160, velocidad = 8/10\<rparr>),
     (''Correos de M'' @ [CHR 0xE9] @ ''xico'',
        \<lparr>t_prob = 15/100, costo_base = 80, velocidad = 4/10\<rparr>),
     (''UPS'', \<lparr>t_prob = 10/100, costo_base = 170, velocidad = 85/100\<rparr>),
     (''Redpack'', \<lparr>t_prob = 5/100, costo_base = 100, velocidad = 6/10\<rparr>),
     (''Paquetexpress'', \<lparr>t_prob = 2/100, costo_base = 90, velocidad = 65/100\<rparr>)]"

record categoria_info =
  c_prob :: real
  precio_min :: int
  precio_max :: int

definition categorias :: "(string \<times> categoria_info) list" where
  "categorias =
    [(''Moda y Accesorios'', \<lparr>c_prob = 25/100, precio_min = 150, precio_max = 5000\<rparr>),
     (''Electr'' @ [CHR 0xF3] @ ''nicos'',
        \<lparr>c_prob = 24/100, precio_min = 500, precio_max = 35000\<rparr>),
     (''Hogar y Jard'' @ [CHR 0xED] @ ''n'',
        \<lparr>c_prob = 16/100, precio_min = 200, precio_max = 15000\<rparr>),
     (''Salud y Belleza'', \<lparr>c_prob = 12/100, precio_min = 100, precio_max = 3000\<rparr>),
     (''Deportes'', \<lparr>c_prob = 9/100, precio_min = 300, precio_max = 8000\<rparr>),
     (''Libros y Educaci'' @ [CHR 0xF3] @ ''n'',
        \<lparr>c_prob = 8/100, precio_min = 50, precio_max = 2000\<rparr>),
     (''Juguetes y Beb'' @ [CHR 0xE9] @ ''s'',
        \<lparr>c_prob = 6/100, precio_min = 200, precio_max = 4000\<rparr>)]"

record metodo_info =
  m_prob :: real
  monto_share :: real

definition metodos_pago :: "(string \<times> metodo_info) list" where
  "metodos_pago =
    [(''Tarjeta de D'' @ [CHR 0xE9] @ ''bito'', \<lparr>m_prob = 48/100, monto_share = 48/100\<rparr>),
     (''Tarjeta de Cr'' @ [CHR 0xE9] @ ''dito'', \<lparr>m_prob = 30/100, monto_share = 52/100\<rparr>),
     (''Efectivo (OXXO)'', \<lparr>m_prob = 15/100, monto_share = 0\<rparr>),
     (''PayPal'', \<lparr>m_prob = 5/100, monto_share = 0\<rparr>),
     (''Transferencia'', \<lparr>m_prob = 2/100, monto_share = 0\<rparr>)]"

definition canales_venta :: "(string \<times> real) list" where
  "canales_venta =
    [(''Mercado Libre'', 35/100), (''Amazon M'' @ [CHR 0xE9] @ ''xico'', 25/100),
     (''Liverpool'', 10/100), (''Coppel'', 8/100), (''Walmart'', 7/100),
     (''Sitio Web Propio'', 15/100)]"

definition tiempos_base :: "(string \<times> (string \<times> int) list) list" where
  "tiempos_base =
    [(''Estafeta'', [(''local'', 2), (''regional'', 4), (''nacional'', 6)]),
     (''DHL'', [(''local'', 1), (''regional'', 2), (''nacional'', 3)]),
     (''FedEx'', [(''local'', 2), (''regional'', 3), (''nacional'', 4)]),
     (''Correos de M'' @ [CHR 0xE9] @ ''xico'',
        [(''local'', 5), (''regional'', 8), (''nacional'', 12)]),
     (''UPS'', [(''local'', 1), (''regional'', 2), (''nacional'', 4)]),
     (''Redpack'', [(''local'', 3), (''regional'', 5), (''nacional'', 7)]),
     (''Paquetexpress'', [(''local'', 3), (''regional'', 5), (''nacional'', 8)])]"

text \<open>\<^verbatim>\<open>d[k]\<close> on a dict raises \<^verbatim>\<open>KeyError\<close> for a key that is not there.\<close>

definition dict_get :: "(string \<times> 'v) list \<Rightarrow> string \<Rightarrow> error + 'v" where
  "dict_get d k = (case map_of d k of None \<Rightarrow> Inl (KeyError k) | Some v \<Rightarrow> Inr v)"

section \<open>Numbers and dates\<close>

text \<open>
  \<^verbatim>\<open>round(x)\<close> rounds to the nearest integer, a tie to the even one; \<^verbatim>\<open>round(x, 2)\<close> and
  \<^verbatim>\<open>round(x, 4)\<close> do so at the second and fourth decimal; \<^verbatim>\<open>int(x)\<close> cuts towards zero.
\<close>

definition py_round :: "real \<Rightarrow> int" where
  "py_round x =
     (let f = \<lfloor>x\<rfloor>; d = x - of_int f
      in if d < 1/2 then f else if 1/2 < d then f + 1 else if even f then f else f + 1)"

definition round2 :: "real \<Rightarrow> real" where
  "round2 x = of_int (py_round (x * 100)) / 100"

definition round4 :: "real \<Rightarrow> real" where
  "round4 x = of_int (py_round (x * 10000)) / 10000"

definition py_int :: "real \<Rightarrow> int" where
  "py_int x = (if 0 \<le> x then \<lfloor>x\<rfloor> else \<lceil>x\<rceil>)"

type_synonym datetime = int

definition timedelta_days :: "int \<Rightarrow> int" where
  "timedelta_days n = n * 86400000000"

text \<open>\<^verbatim>\<open>(a - b).days\<close>: a timedelta keeps its days as the floor of the difference.\<close>

definition days_between :: "datetime \<Rightarrow> datetime \<Rightarrow> int" where
  "days_between a b = (a - b) div 86400000000"

text \<open>
  \<^verbatim>\<open>fecha.month\<close> and \<^verbatim>\<open>fecha.day\<close> in the proleptic Gregorian calendar, from the day
  number since 1970-01-01.
\<close>

definition day_of_year_march :: "int \<Rightarrow> int" where
  "day_of_year_march dias =
     (let doe = (dias + 719468) mod 146097;
          yoe = (doe - doe div 1460 + doe div 36524 - doe div 146096) div 365
      in doe - (365 * yoe + yoe div 4 - yoe div 100))"

definition date_month :: "datetime \<Rightarrow> int" where
  "date_month fecha =
     (let mp = (5 * day_of_year_march (fecha div 86400000000) + 2) div 153
      in if mp < 10 then mp + 3 else mp - 9)"

definition date_day :: "datetime \<Rightarrow> int" where
  "date_day fecha =
     (let doy = day_of_year_march (fecha div 86400000000);
          mp = (5 * doy + 2) div 153
      in doy - (153 * mp + 2) div 5 + 1)"

section \<open>State to region (\<^verbatim>\<open>_get_region_from_estado\<close>)\<close>

text \<open>
  The loop over \<^verbatim>\<open>self.regiones.items()\<close> returns the first region whose list holds the
  state; \<open>None\<close> is the loop running to its end, where the source returns the default.
\<close>

fun region_search :: "(string \<times> string list) list \<Rightarrow> string \<Rightarrow> string option" where
  "region_search [] estado = None"
| "region_search ((region, estados) # rest) estado =
     (if estado \<in> set estados then Some region else region_search rest estado)"

definition get_region_from_estado :: "string \<Rightarrow> string" where
  "get_region_from_estado estado =
     (case region_search regiones estado of Some region \<Rightarrow> region | None \<Rightarrow> ''Centro'')"

section \<open>Random draws\<close>

text \<open>
  The program draws from numpy's seeded generator and from a Faker instance. The model
  takes every draw as an argument, in a record per function that draws: a field is what
  the call at that place returned. \<^verbatim>\<open>np.random.uniform(low, high)\<close> is
  \<open>low + (high - low) * u\<close> for the generator's \<open>u\<close> in \<open>[0, 1)\<close>, and \<^verbatim>\<open>np.random.random()\<close>
  is \<open>u\<close> itself; the draws of the branches of one \<^verbatim>\<open>if\<close> share their \<open>u\<close>, since one of
  them runs. The ranges of the draws are the predicates of the section on valid draws.
\<close>

definition np_uniform :: "real \<Rightarrow> real \<Rightarrow> real \<Rightarrow> real" where
  "np_uniform low high u = low + (high - low) * u"

record cliente_draws =
  d_edad_grupo :: string
  d_lealtad :: real
  d_frecuencia :: int

record producto_draws =
  d_precio_u :: real
  d_peso_u :: real
  d_cantidad_u :: real
  d_cantidad_1_6 :: int
  d_cantidad_6_11 :: int

record fechas_draws =
  d_dias_procesamiento :: int
  d_variabilidad :: real
  d_impacto_u :: real
  d_ajuste :: int

record pago_draws =
  d_metodo :: string
  d_status_u1 :: real
  d_status_u2 :: real
  d_msi :: int

record registro_draws =
  d_cliente :: cliente_draws
  d_estado :: string
  d_categoria :: string
  d_producto :: producto_draws
  d_transportista :: string
  d_express_u :: real
  d_fechas :: fechas_draws
  d_dist_local :: int
  d_dist_regional :: int
  d_dist_nacional :: int
  d_variacion_u :: real
  d_pago :: pago_draws
  d_canal :: string
  d_calif_ajuste :: int
  d_problema :: string
  d_urbano_u :: real

text \<open>
  What \<^verbatim>\<open>self.fake\<close> returns does not come from numpy's generator: \<open>f_customer\<close> is
  \<^verbatim>\<open>random_int(10000, 99999)\<close>, and \<^verbatim>\<open>date_time_between(start_date='-1y', end_date='now')\<close>
  reads the clock (\<open>f_now\<close>) and returns the instant \<open>f_offset\<close> after the start of the year
  that ends then. Faker counts a year as 365.24 days.
\<close>

record faker_draws =
  f_customer :: int
  f_now :: datetime
  f_offset :: int

definition un_ano :: int where
  "un_ano = 31556736000000"

definition date_time_between_1y :: "faker_draws \<Rightarrow> datetime" where
  "date_time_between_1y fk = f_now fk - un_ano + f_offset fk"

section \<open>Delivery time (\<^verbatim>\<open>_calcular_tiempo_entrega\<close>, \<^verbatim>\<open>_es_temporada_alta\<close>)\<close>

definition calcular_tiempo_entrega ::
  "string \<Rightarrow> string \<Rightarrow> string \<Rightarrow> bool \<Rightarrow> fechas_draws \<Rightarrow> error + int" where
  "calcular_tiempo_entrega transportista estado_origen estado_destino es_alta fd =
     (let tipo_envio =
            (if estado_origen = estado_destino then ''local''
             else if get_region_from_estado estado_origen = get_region_from_estado estado_destino
             then ''regional'' else ''nacional'')
      in case dict_get tiempos_base transportista of
           Inl e \<Rightarrow> Inl e
         | Inr tiempos \<Rightarrow>
             (case dict_get tiempos tipo_envio of
                Inl e \<Rightarrow> Inl e
              | Inr tiempo_base \<Rightarrow>
                  (let variabilidad = d_variabilidad fd;
                       impacto_temporada =
                         (if es_alta then np_uniform (12/10) 2 (d_impacto_u fd) else 1)
                   in Inr (max 1 (py_round (of_int tiempo_base * impacto_temporada
                                            + variabilidad))))))"

definition es_temporada_alta :: "datetime \<Rightarrow> bool" where
  "es_temporada_alta fecha =
     (let mes = date_month fecha
      in if mes = 5 \<or> mes = 11 \<or> mes = 12 then True
         else if mes = 4 \<and> date_day fecha = 30 then True
         else if mes = 2 \<and> date_day fecha = 14 then True
         else False)"

section \<open>Dates of an order (\<^verbatim>\<open>_generar_fechas_realistas\<close>)\<close>

record fechas =
  order_date :: datetime
  shipped_date :: datetime
  delivered_date :: datetime
  processing_days :: int
  delivery_days :: int

definition generar_fechas_realistas ::
  "string \<Rightarrow> string \<Rightarrow> faker_draws \<Rightarrow> fechas_draws \<Rightarrow> error + fechas" where
  "generar_fechas_realistas transportista estado_destino fk fd =
     (let fecha_pedido = date_time_between_1y fk;
          dias_procesamiento = d_dias_procesamiento fd;
          fecha_envio = fecha_pedido + timedelta_days dias_procesamiento;
          es_alta = es_temporada_alta fecha_pedido;
          estado_origen = ''Ciudad de M'' @ [CHR 0xE9] @ ''xico''
      in case calcular_tiempo_entrega transportista estado_origen estado_destino es_alta fd of
           Inl e \<Rightarrow> Inl e
         | Inr dias \<Rightarrow>
             (let dias_entrega = dias + d_ajuste fd;
                  fecha_entrega = fecha_envio + timedelta_days (max 1 dias_entrega)
              in Inr \<lparr>order_date = fecha_pedido, shipped_date = fecha_envio,
                       delivered_date = fecha_entrega,
                       processing_days = dias_procesamiento,
                       delivery_days = dias_entrega\<rparr>))"

section \<open>Product, customer, payment and shipping cost\<close>

record datos_producto =
  product_price_mxn :: real
  product_weight_kg :: real
  quantity :: int

definition generar_datos_producto :: "string \<Rightarrow> producto_draws \<Rightarrow> error + datos_producto" where
  "generar_datos_producto categoria pd =
     (case dict_get categorias categoria of
        Inl e \<Rightarrow> Inl e
      | Inr cat_info \<Rightarrow>
          (let precio = np_uniform (of_int (precio_min cat_info)) (of_int (precio_max cat_info))
                          (d_precio_u pd);
               peso =
                 (if categoria = ''Electr'' @ [CHR 0xF3] @ ''nicos''
                  then np_uniform (5/10) 5 (d_peso_u pd)
                  else if categoria = ''Moda y Accesorios''
                  then np_uniform (1/10) 2 (d_peso_u pd)
                  else if categoria = ''Hogar y Jard'' @ [CHR 0xED] @ ''n''
                  then np_uniform 1 15 (d_peso_u pd)
                  else np_uniform (2/10) 3 (d_peso_u pd));
               cantidad =
                 (if d_cantidad_u pd < 95/100 then d_cantidad_1_6 pd else d_cantidad_6_11 pd)
           in Inr \<lparr>product_price_mxn = round2 precio, product_weight_kg = round2 peso,
                    quantity = cantidad\<rparr>))"

record datos_cliente =
  customer_age_group :: string
  customer_loyalty_months :: int
  purchase_frequency :: int

definition generar_datos_cliente :: "cliente_draws \<Rightarrow> datos_cliente" where
  "generar_datos_cliente cd =
     \<lparr>customer_age_group = d_edad_grupo cd,
      customer_loyalty_months = min (py_int (d_lealtad cd)) 60,
      purchase_frequency = d_frecuencia cd\<rparr>"

record datos_pago =
  payment_method :: string
  transaction_status :: string
  payment_installments :: int

definition generar_datos_pago :: "real \<Rightarrow> pago_draws \<Rightarrow> datos_pago" where
  "generar_datos_pago monto_total pg =
     (let metodo = d_metodo pg;
          status =
            (if d_status_u1 pg < 67/100 then ''Autorizada''
             else if d_status_u2 pg < 8/10 then ''En revisi'' @ [CHR 0xF3] @ ''n''
             else ''Rechazada'');
          msi =
            (if metodo = ''Tarjeta de Cr'' @ [CHR 0xE9] @ ''dito'' \<and> status = ''Autorizada''
             then d_msi pg else 1)
      in \<lparr>payment_method = metodo, transaction_status = status,
          payment_installments = msi\<rparr>)"

definition calcular_costo_envio ::
  "string \<Rightarrow> real \<Rightarrow> string \<Rightarrow> bool \<Rightarrow> real \<Rightarrow> error + real" where
  "calcular_costo_envio transportista peso distancia es_express variacion_u =
     (case dict_get transportistas transportista of
        Inl e \<Rightarrow> Inl e
      | Inr info \<Rightarrow>
          (let costo_peso = peso * 15;
               ajuste_distancia =
                 (if distancia = ''local'' then 1
                  else if distancia = ''regional'' then 15/10
                  else 2);
               ajuste_express = (if es_express then 2 else 1);
               costo_final =
                 (of_int (costo_base info) + costo_peso) * ajuste_distancia * ajuste_express;
               variacion = np_uniform (9/10) (11/10) variacion_u
           in Inr (round2 (costo_final * variacion))))"

section \<open>One order record (the body of the loop of \<^verbatim>\<open>generate_dataset\<close>)\<close>

text \<open>\<^verbatim>\<open>str(n)\<close> of an integer and the format \<^verbatim>\<open>{i:05d}\<close> of a loop index.\<close>

definition digit_char :: "nat \<Rightarrow> char" where
  "digit_char d = ''0123456789'' ! d"

fun str_nat :: "nat \<Rightarrow> string" where
  "str_nat n = (if n < 10 then [digit_char n] else str_nat (n div 10) @ [digit_char (n mod 10)])"

declare str_nat.simps [simp del]

definition str_int :: "int \<Rightarrow> string" where
  "str_int i = (if i < 0 then ''-'' @ str_nat (nat (- i)) else str_nat (nat i))"

definition format_05d :: "nat \<Rightarrow> string" where
  "format_05d i = replicate (5 - length (str_nat i)) (CHR ''0'') @ str_nat i"

text \<open>
  The dict \<^verbatim>\<open>registro\<close> of the loop body, its keys in the order of the source, as a
  function of the local variables it reads.
\<close>

definition registro ::
  "string \<Rightarrow> string \<Rightarrow> fechas \<Rightarrow> int \<Rightarrow> int \<Rightarrow> int \<Rightarrow> string \<Rightarrow> datos_producto \<Rightarrow> real \<Rightarrow>
   string \<Rightarrow> bool \<Rightarrow> real \<Rightarrow> int \<Rightarrow> string \<Rightarrow> string \<Rightarrow> string \<Rightarrow> datos_cliente \<Rightarrow> real \<Rightarrow>
   datos_pago \<Rightarrow> string \<Rightarrow> int \<Rightarrow> string \<Rightarrow> (string \<times> val) list" where
  "registro order_id customer_id fechas dias_prometidos dias_reales diferencia_dias categoria
     producto monto_total transportista es_express costo_envio distancia_km tipo_distancia
     estado_cliente region_cliente cliente urbano_u pago canal_venta calificacion
     problema_entrega =
     [(''order_id'', PyStr order_id),
      (''customer_id'', PyStr customer_id),
      (''order_date'', PyDate (order_date fechas)),
      (''shipped_date'', PyDate (shipped_date fechas)),
      (''delivered_date'', PyDate (delivered_date fechas)),
      (''processing_days'', PyInt (processing_days fechas)),
      (''delivery_days'', PyInt (delivery_days fechas)),
      (''promised_delivery_days'', PyInt dias_prometidos),
      (''actual_delivery_days'', PyInt dias_reales),
      (''delivery_delay_days'', PyInt diferencia_dias),
      (''delivery_met_promise'', PyInt (if diferencia_dias \<le> 0 then 1 else 0)),
      (''product_category'', PyStr categoria),
      (''product_price_mxn'', PyFloat (product_price_mxn producto)),
      (''product_weight_kg'', PyFloat (product_weight_kg producto)),
      (''quantity'', PyInt (quantity producto)),
      (''total_amount_mxn'', PyFloat (round2 monto_total)),
      (''shipping_carrier'', PyStr transportista),
      (''shipping_tier'',
         PyStr (if es_express then ''Express'' else ''Est'' @ [CHR 0xE1] @ ''ndar'')),
      (''shipping_cost_mxn'', PyFloat costo_envio),
      (''distance_km'', PyInt distancia_km),
      (''shipping_type'', PyStr tipo_distancia),
      (''customer_state'', PyStr estado_cliente),
      (''customer_region'', PyStr region_cliente),
      (''customer_age_group'', PyStr (customer_age_group cliente)),
      (''customer_loyalty_months'', PyInt (customer_loyalty_months cliente)),
      (''purchase_frequency'', PyInt (purchase_frequency cliente)),
      (''is_urban'', PyInt (if urbano_u < 75/100 then 1 else 0)),
      (''payment_method'', PyStr (payment_method pago)),
      (''transaction_status'', PyStr (transaction_status pago)),
      (''payment_installments'', PyInt (payment_installments pago)),
      (''sales_channel'',
         PyStr (if canal_venta \<noteq> ''Sitio Web Propio'' then ''Marketplace'' else ''D2C'')),
      (''platform_name'', PyStr canal_venta),
      (''is_peak_season'', PyInt (if es_temporada_alta (order_date fechas) then 1 else 0)),
      (''customer_delivery_rating'', PyInt calificacion),
      (''delivery_issue'', PyStr problema_entrega),
      (''shipping_cost_to_price_ratio'',
         PyFloat (round4 (costo_envio / product_price_mxn producto))),
      (''is_frequent_customer'', PyInt (if purchase_frequency cliente > 3 then 1 else 0)),
      (''is_loyal_customer'',
         PyInt (if customer_loyalty_months cliente > 12 then 1 else 0)),
      (''high_value_order'', PyInt (if monto_total > 5000 then 1 else 0))]"

text \<open>
  The body of the loop for the index \<open>i\<close>. A lookup in a table raises \<^verbatim>\<open>KeyError\<close>, and
  the cost-to-price ratio of the record divides by the price.
\<close>

definition generar_registro ::
  "nat \<Rightarrow> faker_draws \<Rightarrow> registro_draws \<Rightarrow> error + (string \<times> val) list" where
  "generar_registro i fk d =
     (let order_id = ''ECOMMX-2024-'' @ format_05d i;
          customer_id = ''CUST-'' @ str_int (f_customer fk);
          cliente = generar_datos_cliente (d_cliente d);
          estado_cliente = d_estado d;
          region_cliente = get_region_from_estado estado_cliente;
          categoria = d_categoria d
      in case generar_datos_producto categoria (d_producto d) of
           Inl e \<Rightarrow> Inl e
         | Inr producto \<Rightarrow>
      (let transportista = d_transportista d;
           es_express = (d_express_u d < 15/100)
       in case generar_fechas_realistas transportista estado_cliente fk (d_fechas d) of
            Inl e \<Rightarrow> Inl e
          | Inr fechas \<Rightarrow>
      (let distancia_km =
             (if estado_cliente = ''Ciudad de M'' @ [CHR 0xE9] @ ''xico'' then d_dist_local d
              else if region_cliente = ''Centro'' then d_dist_regional d
              else d_dist_nacional d);
           tipo_distancia =
             (if estado_cliente = ''Ciudad de M'' @ [CHR 0xE9] @ ''xico'' then ''local''
              else if region_cliente = ''Centro'' then ''regional''
              else ''nacional'')
       in case calcular_costo_envio transportista (product_weight_kg producto) tipo_distancia
                 es_express (d_variacion_u d) of
            Inl e \<Rightarrow> Inl e
          | Inr costo_envio \<Rightarrow>
      (let monto_total =
             product_price_mxn producto * of_int (quantity producto) + costo_envio;
           pago = generar_datos_pago monto_total (d_pago d);
           canal_venta = d_canal d
       in case dict_get tiempos_base transportista of
            Inl e \<Rightarrow> Inl e
          | Inr tiempos \<Rightarrow>
      (case dict_get tiempos tipo_distancia of
            Inl e \<Rightarrow> Inl e
          | Inr dias_prometidos_base \<Rightarrow>
      (let dias_prometidos =
             (if es_express then max 1 (dias_prometidos_base - 2) else dias_prometidos_base);
           dias_reales = days_between (delivered_date fechas) (shipped_date fechas);
           diferencia_dias = dias_reales - dias_prometidos;
           calificacion_base =
             (if diferencia_dias \<le> 0 then 5
              else if diferencia_dias \<le> 2 then 4
              else if diferencia_dias \<le> 5 then 3
              else if diferencia_dias \<le> 10 then 2
              else 1);
           calificacion = max 1 (min 5 (calificacion_base + d_calif_ajuste d));
           problema_entrega = d_problema d
       in if product_price_mxn producto = 0 then Inl ZeroDivisionError
          else Inr (registro order_id customer_id fechas dias_prometidos dias_reales
                      diferencia_dias categoria producto monto_total transportista es_express
                      costo_envio distancia_km tipo_distancia estado_cliente region_cliente
                      cliente (d_urbano_u d) pago canal_venta calificacion
                      problema_entrega)))))))"

text \<open>The loop \<^verbatim>\<open>for i in range(self.n_records)\<close>: record \<open>i\<close> is appended to \<^verbatim>\<open>datos\<close>.\<close>

fun generar_registros ::
  "nat \<Rightarrow> (nat \<Rightarrow> faker_draws) \<Rightarrow> (nat \<Rightarrow> registro_draws) \<Rightarrow> error + (string \<times> val) list list" where
  "generar_registros 0 fks ds = Inr []"
| "generar_registros (Suc n) fks ds =
     (case generar_registros n fks ds of
        Inl e \<Rightarrow> Inl e
      | Inr datos \<Rightarrow>
          (case generar_registro n (fks n) (ds n) of
             Inl e \<Rightarrow> Inl e
           | Inr fila \<Rightarrow> Inr (datos @ [fila])))"

section \<open>The table (a pandas \<^verbatim>\<open>DataFrame\<close>)\<close>

text \<open>
  A table has its column names and its rows, each row the values under the columns in
  their order. The index is the default one: the label of a row is its position.
  \<^verbatim>\<open>pd.DataFrame(datos)\<close> is called on a list of dicts that share their keys, as the
  records of one run do: the keys are the columns.
\<close>

record dataframe =
  df_columns :: "string list"
  df_rows :: "val list list"

definition DataFrame :: "(string \<times> val) list list \<Rightarrow> dataframe" where
  "DataFrame datos =
     \<lparr>df_columns = (case datos of [] \<Rightarrow> [] | primero # _ \<Rightarrow> map fst primero),
      df_rows = map (map snd) datos\<rparr>"

fun col_pos :: "string list \<Rightarrow> string \<Rightarrow> nat option" where
  "col_pos [] c = None"
| "col_pos (x # xs) c = (if x = c then Some 0 else map_option Suc (col_pos xs c))"

text \<open>
  \<^verbatim>\<open>df.at[idx, col]\<close> raises \<^verbatim>\<open>KeyError\<close> for a column or a label that is not there.
  \<^verbatim>\<open>df.at[idx, col] = v\<close> on a column that is not there adds the column, with \<^verbatim>\<open>nan\<close> in the
  other rows; on a label that is not there pandas adds a row, which is left out of the
  model (\<open>Unmodelled\<close>): the pass draws its labels from the index.
\<close>

definition at_get :: "dataframe \<Rightarrow> nat \<Rightarrow> string \<Rightarrow> error + val" where
  "at_get df idx col =
     (case col_pos (df_columns df) col of
        None \<Rightarrow> Inl (KeyError col)
      | Some j \<Rightarrow>
          if idx < length (df_rows df) then Inr (df_rows df ! idx ! j)
          else Inl (KeyError (str_nat idx)))"

definition at_set :: "dataframe \<Rightarrow> nat \<Rightarrow> string \<Rightarrow> val \<Rightarrow> error + dataframe" where
  "at_set df idx col v =
     (if idx < length (df_rows df) then
        (case col_pos (df_columns df) col of
           Some j \<Rightarrow> Inr (df\<lparr>df_rows := (df_rows df)[idx := (df_rows df ! idx)[j := v]]\<rparr>)
         | None \<Rightarrow>
             Inr \<lparr>df_columns = df_columns df @ [col],
                  df_rows = (map (\<lambda>fila. fila @ [PyNaN]) (df_rows df))
                              [idx := (df_rows df ! idx) @ [v]]\<rparr>)
      else Inl Unmodelled)"

text \<open>\<^verbatim>\<open>df.iloc[i]\<close> and \<^verbatim>\<open>df.iloc[i] = fila\<close> raise \<^verbatim>\<open>IndexError\<close> out of range.\<close>

definition iloc_get :: "dataframe \<Rightarrow> nat \<Rightarrow> error + val list" where
  "iloc_get df i = (if i < length (df_rows df) then Inr (df_rows df ! i) else Inl IndexError)"

definition iloc_set :: "dataframe \<Rightarrow> nat \<Rightarrow> val list \<Rightarrow> error + dataframe" where
  "iloc_set df i fila =
     (if i < length (df_rows df) then Inr (df\<lparr>df_rows := (df_rows df)[i := fila]\<rparr>)
      else Inl IndexError)"

section \<open>Conversions of a cell\<close>

text \<open>
  \<^verbatim>\<open>str(v)\<close>, \<^verbatim>\<open>float(v) * 100\<close> and \<^verbatim>\<open>v - timedelta(days=n)\<close> on the value of a cell. The text
  of a float or of a timestamp, the parse of a string as a float and the difference of a
  number and a timedelta are left out of the model (\<open>Unmodelled\<close>): the columns that the
  pass reads hold, in a table of the generator, a string, a float and a timestamp.
\<close>

definition py_str :: "val \<Rightarrow> error + string" where
  "py_str v =
     (case v of
        PyStr s \<Rightarrow> Inr s
      | PyInt i \<Rightarrow> Inr (str_int i)
      | PyNaN \<Rightarrow> Inr ''nan''
      | _ \<Rightarrow> Inl Unmodelled)"

definition float_times :: "val \<Rightarrow> real \<Rightarrow> error + val" where
  "float_times v k =
     (case v of
        PyFloat x \<Rightarrow> Inr (PyFloat (x * k))
      | PyInt i \<Rightarrow> Inr (PyFloat (of_int i * k))
      | PyNaN \<Rightarrow> Inr PyNaN
      | _ \<Rightarrow> Inl Unmodelled)"

definition minus_timedelta_days :: "val \<Rightarrow> int \<Rightarrow> error + val" where
  "minus_timedelta_days v n =
     (case v of
        PyDate t \<Rightarrow> Inr (PyDate (t - timedelta_days n))
      | _ \<Rightarrow> Inl Unmodelled)"

text \<open>\<^verbatim>\<open>s.lower()\<close> on Latin-1: the capitals A-Z and, but for the times sign, U+00C0-U+00DE.\<close>

definition lower_char :: "char \<Rightarrow> char" where
  "lower_char c =
     (let n = (of_char c :: nat)
      in if (65 \<le> n \<and> n \<le> 90) \<or> (192 \<le> n \<and> n \<le> 222 \<and> n \<noteq> 215)
         then char_of (n + 32) else c)"

definition lower :: "string \<Rightarrow> string" where
  "lower s = map lower_char s"

section \<open>Controlled errors (\<^verbatim>\<open>_agregar_errores_controlados\<close>)\<close>

text \<open>
  The draws of one turn of the loop: the kind of error, the column of a missing value,
  the \<open>u\<close> of \<^verbatim>\<open>np.random.random()\<close> and the distance of \<^verbatim>\<open>np.random.randint(5000, 10000)\<close>.
\<close>

record error_draws =
  e_tipo_error :: string
  e_columna :: string
  e_u :: real
  e_distancia :: int

definition aplicar_error :: "dataframe \<Rightarrow> nat \<Rightarrow> error_draws \<Rightarrow> error + dataframe" where
  "aplicar_error df idx ed =
     (let tipo_error = e_tipo_error ed
      in if tipo_error = ''missing'' then at_set df idx (e_columna ed) PyNaN
         else if tipo_error = ''outlier'' then
           (if e_u ed > 1/2 then
              (case at_get df idx ''product_price_mxn'' of
                 Inl e \<Rightarrow> Inl e
               | Inr v \<Rightarrow>
                   (case float_times v 100 of
                      Inl e \<Rightarrow> Inl e
                    | Inr w \<Rightarrow> at_set df idx ''product_price_mxn'' w))
            else at_set df idx ''distance_km'' (PyInt (e_distancia ed)))
         else if tipo_error = ''typo'' then
           (if e_u ed > 1/2 then
              (case at_get df idx ''shipping_carrier'' of
                 Inl e \<Rightarrow> Inl e
               | Inr v \<Rightarrow>
                   (case py_str v of
                      Inl e \<Rightarrow> Inl e
                    | Inr s \<Rightarrow> at_set df idx ''shipping_carrier'' (PyStr ('' '' @ s))))
            else
              (case at_get df idx ''customer_state'' of
                 Inl e \<Rightarrow> Inl e
               | Inr v \<Rightarrow>
                   (case py_str v of
                      Inl e \<Rightarrow> Inl e
                    | Inr s \<Rightarrow> at_set df idx ''customer_state'' (PyStr (lower s)))))
         else if tipo_error = ''duplicate'' then
           (if idx > 0 then
              (case iloc_get df (idx - 1) of
                 Inl e \<Rightarrow> Inl e
               | Inr anterior \<Rightarrow>
                   (case iloc_set df idx anterior of
                      Inl e \<Rightarrow> Inl e
                    | Inr df1 \<Rightarrow>
                        (case at_get df1 idx ''order_id'' of
                           Inl e \<Rightarrow> Inl e
                         | Inr original_id \<Rightarrow>
                             (case py_str original_id of
                                Inl e \<Rightarrow> Inl e
                              | Inr s \<Rightarrow> at_set df1 idx ''order_id'' (PyStr (''DUPE-'' @ s))))))
            else Inr df)
         else if tipo_error = ''inconsistent'' then
           (if e_u ed > 1/2 then
              (case at_get df idx ''shipped_date'' of
                 Inl e \<Rightarrow> Inl e
               | Inr v \<Rightarrow>
                   (case minus_timedelta_days v 2 of
                      Inl e \<Rightarrow> Inl e
                    | Inr w \<Rightarrow> at_set df idx ''delivered_date'' w))
            else
              (case at_get df idx ''order_date'' of
                 Inl e \<Rightarrow> Inl e
               | Inr v \<Rightarrow>
                   (case minus_timedelta_days v 1 of
                      Inl e \<Rightarrow> Inl e
                    | Inr w \<Rightarrow> at_set df idx ''shipped_date'' w)))
         else Inr df)"

text \<open>The loop \<^verbatim>\<open>for idx in indices_errores\<close>; turn \<open>k\<close> of the loop has the draws \<open>eds k\<close>.\<close>

fun errores_loop ::
  "dataframe \<Rightarrow> nat list \<Rightarrow> nat \<Rightarrow> (nat \<Rightarrow> error_draws) \<Rightarrow> error + dataframe" where
  "errores_loop df [] k eds = Inr df"
| "errores_loop df (idx # resto) k eds =
     (case aplicar_error df idx (eds k) of
        Inl e \<Rightarrow> Inl e
      | Inr df' \<Rightarrow> errores_loop df' resto (Suc k) eds)"

text \<open>
  \<^verbatim>\<open>n_errores = int(len(df) * porcentaje)\<close>.
  \<^verbatim>\<open>np.random.choice(df.index, n_errores, replace=False)\<close> is the first \<open>n_errores\<close> entries of
  a permutation of the index that the generator draws (\<open>perm\<close>); it raises \<^verbatim>\<open>ValueError\<close>
  for a negative size and for a size above the number of rows.
\<close>

definition n_errores :: "nat \<Rightarrow> real \<Rightarrow> int" where
  "n_errores n porcentaje = py_int (of_nat n * porcentaje)"

definition errores_en_tabla ::
  "dataframe \<Rightarrow> real \<Rightarrow> nat list \<Rightarrow> (nat \<Rightarrow> error_draws) \<Rightarrow> error + dataframe" where
  "errores_en_tabla df_con_errores porcentaje perm eds =
     (let n = n_errores (length (df_rows df_con_errores)) porcentaje
      in if n < 0 \<or> int (length (df_rows df_con_errores)) < n then Inl ValueError
         else errores_loop df_con_errores (take (nat n) perm) 0 eds)"

text \<open>
  The objects of the program are the tables of a store, a table's address its position
  there. \<^verbatim>\<open>df.copy()\<close> puts a new table into the store; the loop writes to that table,
  which no other name refers to, and the function returns its address.
\<close>

type_synonym store = "dataframe list"

definition agregar_errores_controlados ::
  "store \<Rightarrow> nat \<Rightarrow> real \<Rightarrow> nat list \<Rightarrow> (nat \<Rightarrow> error_draws) \<Rightarrow> error + (store \<times> nat)" where
  "agregar_errores_controlados h df porcentaje perm eds =
     (let df_con_errores = length h;
          h1 = h @ [h ! df]
      in case errores_en_tabla (h1 ! df_con_errores) porcentaje perm eds of
           Inl e \<Rightarrow> Inl e
         | Inr tabla \<Rightarrow> Inr (h1[df_con_errores := tabla], df_con_errores))"

section \<open>The dataset (\<^verbatim>\<open>generate_dataset\<close>)\<close>

text \<open>
  The records of the loop become a table; with \<^verbatim>\<open>include_errors\<close> the pass runs on it at
  5 percent and \<^verbatim>\<open>df\<close> is bound to the table the pass returns.
\<close>

definition generate_dataset ::
  "nat \<Rightarrow> (nat \<Rightarrow> faker_draws) \<Rightarrow> (nat \<Rightarrow> registro_draws) \<Rightarrow> bool \<Rightarrow> nat list \<Rightarrow>
   (nat \<Rightarrow> error_draws) \<Rightarrow> error + dataframe" where
  "generate_dataset n_records fks ds include_errors perm eds =
     (case generar_registros n_records fks ds of
        Inl e \<Rightarrow> Inl e
      | Inr datos \<Rightarrow>
          (let h = [DataFrame datos]; df = 0
           in if include_errors then
                (case agregar_errores_controlados h df (5/100) perm eds of
                   Inl e \<Rightarrow> Inl e
                 | Inr (h', df') \<Rightarrow> Inr (h' ! df'))
              else Inr (h ! df)))"

section \<open>The sample file (\<^verbatim>\<open>main\<close>)\<close>




section \<open>Valid draws\<close>

text \<open>
  What the generators can return: \<^verbatim>\<open>np.random.choice\<close> an element of its list,
  \<^verbatim>\<open>randint(a, b)\<close> an integer from \<open>a\<close> up to \<open>b - 1\<close>, \<^verbatim>\<open>random()\<close> a \<open>u\<close> in \<open>[0, 1)\<close>, an
  exponential draw a non-negative number, a Poisson draw a natural number; Faker's
  \<^verbatim>\<open>random_int(10000, 99999)\<close> an integer of that range and its date an instant of the
  year that ends at the clock's reading.
\<close>

definition unit_draw :: "real \<Rightarrow> bool" where
  "unit_draw u \<longleftrightarrow> 0 \<le> u \<and> u < 1"

definition valid_cliente_draws :: "cliente_draws \<Rightarrow> bool" where
  "valid_cliente_draws cd \<longleftrightarrow>
     d_edad_grupo cd \<in> set [''18-24'', ''25-34'', ''35-44'', ''45-54'', ''55+'']
     \<and> 0 \<le> d_lealtad cd \<and> 0 \<le> d_frecuencia cd"

definition valid_producto_draws :: "producto_draws \<Rightarrow> bool" where
  "valid_producto_draws pd \<longleftrightarrow>
     unit_draw (d_precio_u pd) \<and> unit_draw (d_peso_u pd) \<and> unit_draw (d_cantidad_u pd)
     \<and> 1 \<le> d_cantidad_1_6 pd \<and> d_cantidad_1_6 pd < 6
     \<and> 6 \<le> d_cantidad_6_11 pd \<and> d_cantidad_6_11 pd < 11"

definition valid_fechas_draws :: "fechas_draws \<Rightarrow> bool" where
  "valid_fechas_draws fd \<longleftrightarrow>
     d_dias_procesamiento fd \<in> set [1, 2, 3] \<and> unit_draw (d_impacto_u fd)
     \<and> - 1 \<le> d_ajuste fd \<and> d_ajuste fd < 2"

definition valid_pago_draws :: "pago_draws \<Rightarrow> bool" where
  "valid_pago_draws pg \<longleftrightarrow>
     d_metodo pg \<in> set (map fst metodos_pago)
     \<and> unit_draw (d_status_u1 pg) \<and> unit_draw (d_status_u2 pg)
     \<and> d_msi pg \<in> set [1, 3, 6, 12, 18]"

definition valid_registro_draws :: "registro_draws \<Rightarrow> bool" where
  "valid_registro_draws d \<longleftrightarrow>
     valid_cliente_draws (d_cliente d)
     \<and> d_estado d \<in> set estados_mexico
     \<and> d_categoria d \<in> set (map fst categorias)
     \<and> valid_producto_draws (d_producto d)
     \<and> d_transportista d \<in> set (map fst transportistas)
     \<and> unit_draw (d_express_u d)
     \<and> valid_fechas_draws (d_fechas d)
     \<and> 0 \<le> d_dist_local d \<and> d_dist_local d < 50
     \<and> 50 \<le> d_dist_regional d \<and> d_dist_regional d < 300
     \<and> 300 \<le> d_dist_nacional d \<and> d_dist_nacional d < 1500
     \<and> unit_draw (d_variacion_u d)
     \<and> valid_pago_draws (d_pago d)
     \<and> d_canal d \<in> set (map fst canales_venta)
     \<and> - 1 \<le> d_calif_ajuste d \<and> d_calif_ajuste d < 2
     \<and> d_problema d \<in> set [''Ninguno'', ''Retraso'', ''Paquete da'' @ [CHR 0xF1] @ ''ado'',
                              ''Extraviado'', ''Entregado en lugar equivocado'']
     \<and> unit_draw (d_urbano_u d)"

definition valid_faker_draws :: "faker_draws \<Rightarrow> bool" where
  "valid_faker_draws fk \<longleftrightarrow>
     10000 \<le> f_customer fk \<and> f_customer fk \<le> 99999 \<and> 0 \<le> f_offset fk \<and> f_offset fk \<le> un_ano"

definition valid_error_draws :: "error_draws \<Rightarrow> bool" where
  "valid_error_draws ed \<longleftrightarrow>
     e_tipo_error ed \<in> set [''missing'', ''outlier'', ''typo'', ''duplicate'', ''inconsistent'']
     \<and> e_columna ed \<in> set [''product_price_mxn'', ''shipping_cost_mxn'',
                             ''customer_loyalty_months'', ''distance_km'']
     \<and> unit_draw (e_u ed) \<and> 5000 \<le> e_distancia ed \<and> e_distancia ed < 10000"

definition valid_perm :: "nat \<Rightarrow> nat list \<Rightarrow> bool" where
  "valid_perm n perm \<longleftrightarrow> distinct perm \<and> set perm = {..<n}"

section \<open>Reading a record and a table\<close>

text \<open>\<^verbatim>\<open>registro[k]\<close> as an option, and the value of a row of a table under a column.\<close>

definition campo :: "(string \<times> val) list \<Rightarrow> string \<Rightarrow> val option" where
  "campo reg k = map_of reg k"

definition celda :: "dataframe \<Rightarrow> nat \<Rightarrow> string \<Rightarrow> val option" where
  "celda df i col =
     (case at_get df i col of Inl e \<Rightarrow> None | Inr v \<Rightarrow> Some v)"

section \<open>Derived quantities of a record, in the words of the specification\<close>

text \<open>
  The distance tier of a destination, the origin being the capital, whose region is
  \<open>Centro\<close>: local for the capital itself, regional for a state that the lookup puts
  into \<open>Centro\<close>, national otherwise.
\<close>

definition tipo_distancia_de :: "string \<Rightarrow> string" where
  "tipo_distancia_de estado =
     (if estado = ''Ciudad de M'' @ [CHR 0xE9] @ ''xico'' then ''local''
      else if get_region_from_estado estado = ''Centro'' then ''regional''
      else ''nacional'')"

text \<open>The base transit days of a carrier and a tier, from the table.\<close>

definition base_transit :: "string \<Rightarrow> string \<Rightarrow> int option" where
  "base_transit transportista tipo =
     (case map_of tiempos_base transportista of
        None \<Rightarrow> None
      | Some tiempos \<Rightarrow> map_of tiempos tipo)"

text \<open>Promised days: the base, reduced by 2 and floored at 1 for an express shipment.\<close>

definition dias_prometidos_de :: "int \<Rightarrow> bool \<Rightarrow> int" where
  "dias_prometidos_de base es_express = (if es_express then max 1 (base - 2) else base)"

text \<open>The base rating, a step function of the delay.\<close>

definition calificacion_base_de :: "int \<Rightarrow> int" where
  "calificacion_base_de diferencia_dias =
     (if diferencia_dias \<le> 0 then 5
      else if diferencia_dias \<le> 2 then 4
      else if diferencia_dias \<le> 5 then 3
      else if diferencia_dias \<le> 10 then 2
      else 1)"

section \<open>Tables that the pass can run on\<close>

text \<open>
  The columns that the pass reads and writes; a table whose rows have a value under each
  column; the frame of one turn of the loop (the columns, the number of rows and every
  row but \<open>idx\<close> stay); and the number of rows of a table that differ from the same rows
  of another.
\<close>

definition columnas_presentes :: "dataframe \<Rightarrow> bool" where
  "columnas_presentes df \<longleftrightarrow>
     set [''product_price_mxn'', ''shipping_cost_mxn'', ''customer_loyalty_months'',
          ''distance_km'', ''shipping_carrier'', ''customer_state'', ''order_id'',
          ''delivered_date'', ''shipped_date'', ''order_date''] \<subseteq> set (df_columns df)"

definition rectangular :: "dataframe \<Rightarrow> bool" where
  "rectangular df \<longleftrightarrow> (\<forall>fila\<in>set (df_rows df). length fila = length (df_columns df))"

definition mismo_marco :: "dataframe \<Rightarrow> nat \<Rightarrow> dataframe \<Rightarrow> bool" where
  "mismo_marco df idx df' \<longleftrightarrow>
     df_columns df' = df_columns df \<and> length (df_rows df') = length (df_rows df)
     \<and> (\<forall>i. i \<noteq> idx \<longrightarrow> df_rows df' ! i = df_rows df ! i)"

definition filas_distintas :: "dataframe \<Rightarrow> dataframe \<Rightarrow> nat" where
  "filas_distintas df df' =
     length (filter (\<lambda>i. df_rows df' ! i \<noteq> df_rows df ! i) [0..<length (df_rows df)])"

text \<open>
  The kinds of value that the columns of a table of the generator hold where the pass
  converts a cell: a string for the carrier, the state and the order id, a float or
  \<^verbatim>\<open>nan\<close> for the price, a timestamp for the shipped and the order date.
\<close>

definition valor_tipado :: "string \<Rightarrow> val \<Rightarrow> bool" where
  "valor_tipado col v =
     (if col \<in> set [''shipping_carrier'', ''customer_state'', ''order_id'']
      then (case v of PyStr s \<Rightarrow> True | _ \<Rightarrow> False)
      else if col = ''product_price_mxn''
      then (case v of PyFloat x \<Rightarrow> True | PyNaN \<Rightarrow> True | _ \<Rightarrow> False)
      else if col \<in> set [''shipped_date'', ''order_date'']
      then (case v of PyDate t \<Rightarrow> True | _ \<Rightarrow> False)
      else True)"

definition tabla_tipada :: "dataframe \<Rightarrow> bool" where
  "tabla_tipada df \<longleftrightarrow>
     rectangular df \<and> (df_rows df \<noteq> [] \<longrightarrow> columnas_presentes df)
     \<and> (\<forall>i c v. celda df i c = Some v \<longrightarrow> valor_tipado c v)"

section \<open>Example tables and error draws\<close>

text \<open>
  A table of \<open>n\<close> orders with the ten columns of the pass, and the draws of a turn of the
  loop that nulls the price, that duplicates the row before, and that shifts a date.
\<close>

definition fila_ejemplo :: "nat \<Rightarrow> val list" where
  "fila_ejemplo i =
     [PyStr (''ECOMMX-2024-'' @ format_05d i), PyDate 1673443264000000,
      PyDate 1673529664000000, PyDate 1673616064000000, PyFloat 4150, PyStr ''DHL'',
      PyFloat (387/2), PyInt 10, PyStr (''Ciudad de M'' @ [CHR 0xE9] @ ''xico''), PyInt 7]"

definition tabla_ejemplo :: "nat \<Rightarrow> dataframe" where
  "tabla_ejemplo n =
     \<lparr>df_columns = [''order_id'', ''order_date'', ''shipped_date'', ''delivered_date'',
                     ''product_price_mxn'', ''shipping_carrier'', ''shipping_cost_mxn'',
                     ''distance_km'', ''customer_state'', ''customer_loyalty_months''],
      df_rows = map fila_ejemplo [0..<n]\<rparr>"

definition error_missing :: error_draws where
  "error_missing =
     \<lparr>e_tipo_error = ''missing'', e_columna = ''product_price_mxn'', e_u = 1/4,
      e_distancia = 6000\<rparr>"

definition error_duplicate :: error_draws where
  "error_duplicate =
     \<lparr>e_tipo_error = ''duplicate'', e_columna = ''product_price_mxn'', e_u = 1/4,
      e_distancia = 6000\<rparr>"

text \<open>The table of 20 orders with the price of its first row nulled.\<close>

definition tabla_ejemplo_nan :: dataframe where
  "tabla_ejemplo_nan =
     (tabla_ejemplo 20)\<lparr>df_rows := (df_rows (tabla_ejemplo 20))[0 := (fila_ejemplo 0)[4 := PyNaN]]\<rparr>"

text \<open>The draws of a loop whose every turn draws the same.\<close>

definition siempre :: "'a \<Rightarrow> nat \<Rightarrow> 'a" where
  "siempre ed k = ed"

section \<open>The three dates of a row\<close>

text \<open>
  The dates of a row in order, the row being read by \<open>leer\<close> (a record by its keys, a row
  of a table by its columns): the order date is at most the shipped date and the shipped
  date at most the delivered date; the shipped date is the order date plus the 1 to 3
  processing days, and the delivered date is the shipped date plus the actual delivery
  days, at least 1.
\<close>

definition fechas_en_orden :: "(string \<Rightarrow> val option) \<Rightarrow> bool" where
  "fechas_en_orden leer \<longleftrightarrow>
     (\<exists>pedido envio entrega proc reales.
        leer ''order_date'' = Some (PyDate pedido)
      \<and> leer ''shipped_date'' = Some (PyDate envio)
      \<and> leer ''delivered_date'' = Some (PyDate entrega)
      \<and> pedido \<le> envio \<and> envio \<le> entrega
      \<and> leer ''processing_days'' = Some (PyInt proc)
      \<and> 1 \<le> proc \<and> proc \<le> 3 \<and> envio = pedido + timedelta_days proc
      \<and> leer ''actual_delivery_days'' = Some (PyInt reales)
      \<and> 1 \<le> reales \<and> entrega = envio + timedelta_days reales)"

section \<open>Example draws\<close>

text \<open>
  An order of DHL to the capital, placed on 2023-01-11 (the clock reads 2023-11-14),
  with no jitter and the adjustment \<open>-1\<close>.
\<close>

definition faker_ejemplo :: faker_draws where
  "faker_ejemplo = \<lparr>f_customer = 12345, f_now = 1700000000000000, f_offset = 5000000000000\<rparr>"

text \<open>The same draws of Faker with the clock read one second later, and with another
  customer number.\<close>

definition faker_mas_tarde :: faker_draws where
  "faker_mas_tarde = faker_ejemplo\<lparr>f_now := 1700000001000000\<rparr>"

definition faker_otro_cliente :: faker_draws where
  "faker_otro_cliente = faker_ejemplo\<lparr>f_customer := 54321\<rparr>"

definition draws_ejemplo :: registro_draws where
  "draws_ejemplo =
     \<lparr>d_cliente = \<lparr>d_edad_grupo = ''25-34'', d_lealtad = 79/10, d_frecuencia = 2\<rparr>,
      d_estado = ''Ciudad de M'' @ [CHR 0xE9] @ ''xico'',
      d_categoria = ''Deportes'',
      d_producto = \<lparr>d_precio_u = 1/2, d_peso_u = 1/4, d_cantidad_u = 1/2,
                     d_cantidad_1_6 = 3, d_cantidad_6_11 = 7\<rparr>,
      d_transportista = ''DHL'',
      d_express_u = 1/2,
      d_fechas = \<lparr>d_dias_procesamiento = 1, d_variabilidad = 0, d_impacto_u = 1/2,
                   d_ajuste = - 1\<rparr>,
      d_dist_local = 10, d_dist_regional = 100, d_dist_nacional = 1000,
      d_variacion_u = 1/2,
      d_pago = \<lparr>d_metodo = ''PayPal'', d_status_u1 = 1/2, d_status_u2 = 1/2, d_msi = 3\<rparr>,
      d_canal = ''Coppel'', d_calif_ajuste = 0, d_problema = ''Ninguno'', d_urbano_u = 1/2\<rparr>"

text \<open>The example order sent to Durango.\<close>

definition draws_durango :: registro_draws where
  "draws_durango = draws_ejemplo\<lparr>d_estado := ''Durango''\<rparr>"

section \<open>Rounding and uniform draws\<close>

lemma floor_le_py_round: "\<lfloor>x\<rfloor> \<le> py_round x"
  by (simp add: py_round_def Let_def)

lemma py_round_ge: "of_int n \<le> x \<Longrightarrow> n \<le> py_round x"
  using floor_le_py_round [of x] by (meson le_floor_iff order_trans)

lemma round2_ge: "of_int n \<le> x \<Longrightarrow> of_int n \<le> round2 x"
proof -
  assume "of_int n \<le> x"
  then have "of_int (n * 100) \<le> x * 100" by simp
  then have "n * 100 \<le> py_round (x * 100)" by (rule py_round_ge)
  then have "of_int (n * 100) \<le> (of_int (py_round (x * 100)) :: real)" by (simp only: of_int_le_iff)
  then show ?thesis by (simp add: round2_def)
qed

lemma np_uniform_ge: "low \<le> high \<Longrightarrow> unit_draw u \<Longrightarrow> low \<le> np_uniform low high u"
  by (simp add: np_uniform_def unit_draw_def)

lemma np_uniform_le: "low \<le> high \<Longrightarrow> unit_draw u \<Longrightarrow> np_uniform low high u \<le> high"
proof -
  assume a: "low \<le> high" "unit_draw u"
  then have "(high - low) * u \<le> (high - low) * 1"
    by (intro mult_left_mono) (simp_all add: unit_draw_def)
  then show ?thesis by (simp add: np_uniform_def)
qed

section \<open>The tables answer every valid draw\<close>

lemma producto_ok:
  assumes "categoria \<in> set (map fst categorias)" "unit_draw (d_precio_u pd)"
  shows "\<exists>p. generar_datos_producto categoria pd = Inr p \<and> 50 \<le> product_price_mxn p"
proof -
  have "\<forall>c\<in>set (map fst categorias). \<exists>info. dict_get categorias c = Inr info
          \<and> 50 \<le> precio_min info \<and> precio_min info \<le> precio_max info"
    by (simp add: categorias_def dict_get_def)
  with assms(1) obtain info where I: "dict_get categorias categoria = Inr info"
    and lo: "50 \<le> precio_min info" and hi: "precio_min info \<le> precio_max info"
    by blast
  have "of_int 50 \<le> np_uniform (of_int (precio_min info)) (of_int (precio_max info)) (d_precio_u pd)"
    using np_uniform_ge [of "of_int (precio_min info)" "of_int (precio_max info)" "d_precio_u pd"] lo hi assms(2)
    by simp
  then have "of_int 50 \<le> round2 (np_uniform (of_int (precio_min info)) (of_int (precio_max info)) (d_precio_u pd))"
    by (rule round2_ge)
  then show ?thesis using I by (simp add: generar_datos_producto_def Let_def)
qed

lemma tiempos_tabla:
  "\<forall>t\<in>set (map fst transportistas). \<forall>tipo\<in>set [''local'', ''regional'', ''nacional''].
     \<exists>tiempos base. dict_get tiempos_base t = Inr tiempos \<and> dict_get tiempos tipo = Inr base \<and> 1 \<le> base"
  by (simp add: transportistas_def tiempos_base_def dict_get_def)

lemma tiempos_ok:
  assumes "transportista \<in> set (map fst transportistas)"
    and "tipo \<in> set [''local'', ''regional'', ''nacional'']"
  shows "\<exists>tiempos base. dict_get tiempos_base transportista = Inr tiempos
           \<and> dict_get tiempos tipo = Inr base \<and> 1 \<le> base"
  using tiempos_tabla assms by blast

lemma costo_tabla:
  "\<forall>t\<in>set (map fst transportistas). \<exists>info. dict_get transportistas t = Inr info"
  by (simp add: transportistas_def dict_get_def)

lemma costo_ok:
  assumes "transportista \<in> set (map fst transportistas)"
  shows "\<exists>c. calcular_costo_envio transportista peso tipo ex u = Inr c"
proof -
  from costo_tabla assms obtain info where "dict_get transportistas transportista = Inr info" by blast
  then show ?thesis by (simp add: calcular_costo_envio_def Let_def)
qed

section \<open>The fields of a record\<close>

lemma campos_registro:
  "campo (registro oid cid f prom reales dif cat p monto tr ex costo km tipo est reg cli urb pago canal calif prob) ''order_id'' = Some (PyStr oid)"
  "campo (registro oid cid f prom reales dif cat p monto tr ex costo km tipo est reg cli urb pago canal calif prob) ''order_date'' = Some (PyDate (order_date f))"
  "campo (registro oid cid f prom reales dif cat p monto tr ex costo km tipo est reg cli urb pago canal calif prob) ''shipped_date'' = Some (PyDate (shipped_date f))"
  "campo (registro oid cid f prom reales dif cat p monto tr ex costo km tipo est reg cli urb pago canal calif prob) ''delivered_date'' = Some (PyDate (delivered_date f))"
  "campo (registro oid cid f prom reales dif cat p monto tr ex costo km tipo est reg cli urb pago canal calif prob) ''processing_days'' = Some (PyInt (processing_days f))"
  "campo (registro oid cid f prom reales dif cat p monto tr ex costo km tipo est reg cli urb pago canal calif prob) ''delivery_days'' = Some (PyInt (delivery_days f))"
  "campo (registro oid cid f prom reales dif cat p monto tr ex costo km tipo est reg cli urb pago canal calif prob) ''promised_delivery_days'' = Some (PyInt prom)"
  "campo (registro oid cid f prom reales dif cat p monto tr ex costo km tipo est reg cli urb pago canal calif prob) ''actual_delivery_days'' = Some (PyInt reales)"
  "campo (registro oid cid f prom reales dif cat p monto tr ex costo km tipo est reg cli urb pago canal calif prob) ''delivery_delay_days'' = Some (PyInt dif)"
  "campo (registro oid cid f prom reales dif cat p monto tr ex costo km tipo est reg cli urb pago canal calif prob) ''delivery_met_promise'' = Some (PyInt (if dif \<le> 0 then 1 else 0))"
  "campo (registro oid cid f prom reales dif cat p monto tr ex costo km tipo est reg cli urb pago canal calif prob) ''product_price_mxn'' = Some (PyFloat (product_price_mxn p))"
  "campo (registro oid cid f prom reales dif cat p monto tr ex costo km tipo est reg cli urb pago canal calif prob) ''product_weight_kg'' = Some (PyFloat (product_weight_kg p))"
  "campo (registro oid cid f prom reales dif cat p monto tr ex costo km tipo est reg cli urb pago canal calif prob) ''quantity'' = Some (PyInt (quantity p))"
  "campo (registro oid cid f prom reales dif cat p monto tr ex costo km tipo est reg cli urb pago canal calif prob) ''total_amount_mxn'' = Some (PyFloat (round2 monto))"
  "campo (registro oid cid f prom reales dif cat p monto tr ex costo km tipo est reg cli urb pago canal calif prob) ''shipping_carrier'' = Some (PyStr tr)"
  "campo (registro oid cid f prom reales dif cat p monto tr ex costo km tipo est reg cli urb pago canal calif prob) ''shipping_tier'' = Some (PyStr (if ex then ''Express'' else ''Est'' @ [CHR 0xE1] @ ''ndar''))"
  "campo (registro oid cid f prom reales dif cat p monto tr ex costo km tipo est reg cli urb pago canal calif prob) ''shipping_cost_mxn'' = Some (PyFloat costo)"
  "campo (registro oid cid f prom reales dif cat p monto tr ex costo km tipo est reg cli urb pago canal calif prob) ''distance_km'' = Some (PyInt km)"
  "campo (registro oid cid f prom reales dif cat p monto tr ex costo km tipo est reg cli urb pago canal calif prob) ''shipping_type'' = Some (PyStr tipo)"
  "campo (registro oid cid f prom reales dif cat p monto tr ex costo km tipo est reg cli urb pago canal calif prob) ''customer_state'' = Some (PyStr est)"
  "campo (registro oid cid f prom reales dif cat p monto tr ex costo km tipo est reg cli urb pago canal calif prob) ''customer_region'' = Some (PyStr reg)"
  by (simp_all add: campo_def registro_def)

lemma generar_registro_eq:
  "generar_registro i fk d =
     (case generar_datos_producto (d_categoria d) (d_producto d) of
        Inl e \<Rightarrow> Inl e
      | Inr p \<Rightarrow>
     (case generar_fechas_realistas (d_transportista d) (d_estado d) fk (d_fechas d) of
        Inl e \<Rightarrow> Inl e
      | Inr f \<Rightarrow>
     (case calcular_costo_envio (d_transportista d) (product_weight_kg p)
             (tipo_distancia_de (d_estado d)) (d_express_u d < 15/100) (d_variacion_u d) of
        Inl e \<Rightarrow> Inl e
      | Inr costo \<Rightarrow>
     (case dict_get tiempos_base (d_transportista d) of
        Inl e \<Rightarrow> Inl e
      | Inr tiempos \<Rightarrow>
     (case dict_get tiempos (tipo_distancia_de (d_estado d)) of
        Inl e \<Rightarrow> Inl e
      | Inr base \<Rightarrow>
        if product_price_mxn p = 0 then Inl ZeroDivisionError
        else Inr (registro (''ECOMMX-2024-'' @ format_05d i)
           (''CUST-'' @ str_int (f_customer fk)) f
           (dias_prometidos_de base (d_express_u d < 15/100))
           (days_between (delivered_date f) (shipped_date f))
           (days_between (delivered_date f) (shipped_date f)
              - dias_prometidos_de base (d_express_u d < 15/100))
           (d_categoria d) p (product_price_mxn p * of_int (quantity p) + costo)
           (d_transportista d) (d_express_u d < 15/100) costo
           (if d_estado d = ''Ciudad de M'' @ [CHR 0xE9] @ ''xico'' then d_dist_local d
            else if get_region_from_estado (d_estado d) = ''Centro'' then d_dist_regional d
            else d_dist_nacional d)
           (tipo_distancia_de (d_estado d)) (d_estado d) (get_region_from_estado (d_estado d))
           (generar_datos_cliente (d_cliente d)) (d_urbano_u d)
           (generar_datos_pago (product_price_mxn p * of_int (quantity p) + costo) (d_pago d))
           (d_canal d)
           (max 1 (min 5 (calificacion_base_de (days_between (delivered_date f) (shipped_date f)
              - dias_prometidos_de base (d_express_u d < 15/100)) + d_calif_ajuste d)))
           (d_problema d)))))))"
  unfolding generar_registro_def Let_def tipo_distancia_de_def dias_prometidos_de_def
    calificacion_base_de_def
  by (rule refl)

lemma generar_registro_Inr:
  assumes "generar_registro i fk d = Inr r"
  obtains f p costo km cli pago calif tiempos base where
    "generar_datos_producto (d_categoria d) (d_producto d) = Inr p"
    "generar_fechas_realistas (d_transportista d) (d_estado d) fk (d_fechas d) = Inr f"
    "calcular_costo_envio (d_transportista d) (product_weight_kg p)
        (tipo_distancia_de (d_estado d)) (d_express_u d < 15/100) (d_variacion_u d) = Inr costo"
    "dict_get tiempos_base (d_transportista d) = Inr tiempos"
    "dict_get tiempos (tipo_distancia_de (d_estado d)) = Inr base"
    "product_price_mxn p \<noteq> 0"
    "r = registro (''ECOMMX-2024-'' @ format_05d i) (''CUST-'' @ str_int (f_customer fk)) f
           (dias_prometidos_de base (d_express_u d < 15/100))
           (days_between (delivered_date f) (shipped_date f))
           (days_between (delivered_date f) (shipped_date f)
              - dias_prometidos_de base (d_express_u d < 15/100))
           (d_categoria d) p (product_price_mxn p * of_int (quantity p) + costo)
           (d_transportista d) (d_express_u d < 15/100) costo
           km (tipo_distancia_de (d_estado d)) (d_estado d)
           (get_region_from_estado (d_estado d)) cli (d_urbano_u d) pago
           (d_canal d) calif (d_problema d)"
proof -
  from assms obtain p f costo tiempos base where
    P: "generar_datos_producto (d_categoria d) (d_producto d) = Inr p" and
    F: "generar_fechas_realistas (d_transportista d) (d_estado d) fk (d_fechas d) = Inr f" and
    C: "calcular_costo_envio (d_transportista d) (product_weight_kg p)
        (tipo_distancia_de (d_estado d)) (d_express_u d < 15/100) (d_variacion_u d) = Inr costo" and
    T: "dict_get tiempos_base (d_transportista d) = Inr tiempos" and
    B: "dict_get tiempos (tipo_distancia_de (d_estado d)) = Inr base"
    unfolding generar_registro_eq by (auto split: sum.splits)
  have NZ: "product_price_mxn p \<noteq> 0"
  proof
    assume "product_price_mxn p = 0"
    with assms P F C T B show False unfolding generar_registro_eq by simp
  qed
  let ?X = "registro (''ECOMMX-2024-'' @ format_05d i) (''CUST-'' @ str_int (f_customer fk)) f
           (dias_prometidos_de base (d_express_u d < 15/100))
           (days_between (delivered_date f) (shipped_date f))
           (days_between (delivered_date f) (shipped_date f)
              - dias_prometidos_de base (d_express_u d < 15/100))
           (d_categoria d) p (product_price_mxn p * of_int (quantity p) + costo)
           (d_transportista d) (d_express_u d < 15/100) costo
           (if d_estado d = ''Ciudad de M'' @ [CHR 0xE9] @ ''xico'' then d_dist_local d
            else if get_region_from_estado (d_estado d) = ''Centro'' then d_dist_regional d
            else d_dist_nacional d)
           (tipo_distancia_de (d_estado d)) (d_estado d) (get_region_from_estado (d_estado d))
           (generar_datos_cliente (d_cliente d)) (d_urbano_u d)
           (generar_datos_pago (product_price_mxn p * of_int (quantity p) + costo) (d_pago d))
           (d_canal d)
           (max 1 (min 5 (calificacion_base_de (days_between (delivered_date f) (shipped_date f)
              - dias_prometidos_de base (d_express_u d < 15/100)) + d_calif_ajuste d)))
           (d_problema d)"
  have "generar_registro i fk d = Inr ?X"
    by (simp only: generar_registro_eq P F C T B sum.case NZ if_False)
  from trans [OF assms [symmetric] this] have R: "r = ?X"
    by (simp only: sum.inject)
  show ?thesis
    by (rule that [OF P F C T B NZ R])
qed

lemma generar_fechas_Inr:
  assumes "generar_fechas_realistas t e fk fd = Inr f"
  shows "order_date f = date_time_between_1y fk"
    and "processing_days f = d_dias_procesamiento fd"
    and "shipped_date f = order_date f + timedelta_days (processing_days f)"
    and "delivered_date f = shipped_date f + timedelta_days (max 1 (delivery_days f))"
  using assms
  by (auto simp: generar_fechas_realistas_def Let_def split: sum.splits)


lemma dict_get_Inr: "dict_get t k = Inr v \<longleftrightarrow> map_of t k = Some v"
  by (simp add: dict_get_def split: option.splits)

lemma tipo_distancia_de_en: "tipo_distancia_de e \<in> set [''local'', ''regional'', ''nacional'']"
  by (simp add: tipo_distancia_de_def)

lemma tiempo_entrega_ok:
  assumes "t \<in> set (map fst transportistas)"
  shows "\<exists>n. calcular_tiempo_entrega t orig e alta fd = Inr n \<and> 1 \<le> n"
proof -
  define tipo where "tipo = (if orig = e then ''local''
      else if get_region_from_estado orig = get_region_from_estado e then ''regional''
      else ''nacional'')"
  have "tipo \<in> set [''local'', ''regional'', ''nacional'']" by (simp add: tipo_def)
  with tiempos_ok [OF assms] obtain tiempos base where
    "dict_get tiempos_base t = Inr tiempos" "dict_get tiempos tipo = Inr base" by blast
  then show ?thesis
    unfolding tipo_def by (simp add: calcular_tiempo_entrega_def Let_def)
qed

lemma fechas_ok:
  assumes "t \<in> set (map fst transportistas)"
  shows "\<exists>f. generar_fechas_realistas t e fk fd = Inr f"
proof -
  from tiempo_entrega_ok [OF assms] obtain n where
    "calcular_tiempo_entrega t (''Ciudad de M'' @ [CHR 0xE9] @ ''xico'') e
       (es_temporada_alta (date_time_between_1y fk)) fd = Inr n" by blast
  then show ?thesis by (simp add: generar_fechas_realistas_def Let_def)
qed

lemma generar_registro_total:
  assumes "valid_registro_draws d"
  shows "\<exists>r. generar_registro i fk d = Inr r"
proof -
  from assms have cat: "d_categoria d \<in> set (map fst categorias)"
    and tr: "d_transportista d \<in> set (map fst transportistas)"
    and u: "unit_draw (d_precio_u (d_producto d))"
    by (simp_all add: valid_registro_draws_def valid_producto_draws_def)
  from producto_ok [OF cat u] obtain p where
    P: "generar_datos_producto (d_categoria d) (d_producto d) = Inr p"
    and NZ: "product_price_mxn p \<noteq> 0" by fastforce
  from fechas_ok [OF tr] obtain f where
    F: "generar_fechas_realistas (d_transportista d) (d_estado d) fk (d_fechas d) = Inr f" by blast
  from costo_ok [OF tr] obtain costo where
    C: "calcular_costo_envio (d_transportista d) (product_weight_kg p)
        (tipo_distancia_de (d_estado d)) (d_express_u d < 15/100) (d_variacion_u d) = Inr costo"
    by blast
  from tiempos_ok [OF tr tipo_distancia_de_en] obtain tiempos base where
    T: "dict_get tiempos_base (d_transportista d) = Inr tiempos"
    and B: "dict_get tiempos (tipo_distancia_de (d_estado d)) = Inr base" by blast
  show ?thesis
    by (simp only: generar_registro_eq P F C T B sum.case NZ if_False) blast
qed

lemma nivel_express: "((if ex then ''Express'' else ''Est'' @ [CHR 0xE1] @ ''ndar'') = ''Express'') = ex"
  by simp

section \<open>Promised and actual delivery days\<close>

text \<open>
  C6. For valid draws the loop body returns a record, and in it: the promised days are
  the base transit days of the table for the record's carrier and distance tier, reduced
  by 2 and floored at 1 when the record's service tier is \<open>Express\<close>; the actual days are
  the delivered date minus the shipped date in whole days; the delay is the actual minus
  the promised days; and the on-time flag is 1 exactly when the delay is at most 0.
\<close>

theorem promised_actual_delay:
  assumes "valid_registro_draws d"
  shows "\<exists>r transportista tipo nivel base prometidos envio entrega reales.
      generar_registro i fk d = Inr r
    \<and> campo r ''shipping_carrier'' = Some (PyStr transportista)
    \<and> campo r ''shipping_type'' = Some (PyStr tipo)
    \<and> campo r ''shipping_tier'' = Some (PyStr nivel)
    \<and> base_transit transportista tipo = Some base
    \<and> prometidos = dias_prometidos_de base (nivel = ''Express'')
    \<and> campo r ''promised_delivery_days'' = Some (PyInt prometidos)
    \<and> campo r ''shipped_date'' = Some (PyDate envio)
    \<and> campo r ''delivered_date'' = Some (PyDate entrega)
    \<and> reales = (entrega - envio) div 86400000000
    \<and> campo r ''actual_delivery_days'' = Some (PyInt reales)
    \<and> campo r ''delivery_delay_days'' = Some (PyInt (reales - prometidos))
    \<and> (\<exists>cumple. campo r ''delivery_met_promise'' = Some (PyInt cumple)
          \<and> (cumple = 1 \<longleftrightarrow> reales - prometidos \<le> 0) \<and> (cumple = 0 \<or> cumple = 1))"
proof -
  from generar_registro_total [OF assms] obtain r where R: "generar_registro i fk d = Inr r"
    by blast
  from R obtain f p costo km cli pago calif tiempos base where
    T: "dict_get tiempos_base (d_transportista d) = Inr tiempos" and
    B: "dict_get tiempos (tipo_distancia_de (d_estado d)) = Inr base" and
    r: "r = registro (''ECOMMX-2024-'' @ format_05d i) (''CUST-'' @ str_int (f_customer fk)) f
           (dias_prometidos_de base (d_express_u d < 15/100))
           (days_between (delivered_date f) (shipped_date f))
           (days_between (delivered_date f) (shipped_date f)
              - dias_prometidos_de base (d_express_u d < 15/100))
           (d_categoria d) p (product_price_mxn p * of_int (quantity p) + costo)
           (d_transportista d) (d_express_u d < 15/100) costo
           km (tipo_distancia_de (d_estado d)) (d_estado d)
           (get_region_from_estado (d_estado d)) cli (d_urbano_u d) pago
           (d_canal d) calif (d_problema d)"
    by (rule generar_registro_Inr)
  have bt: "base_transit (d_transportista d) (tipo_distancia_de (d_estado d)) = Some base"
    using T B by (simp add: base_transit_def dict_get_Inr)
  show ?thesis
    apply (rule exI [of _ r])
    apply (rule exI [of _ "d_transportista d"])
    apply (rule exI [of _ "tipo_distancia_de (d_estado d)"])
    apply (rule exI [of _ "if d_express_u d < 15/100 then ''Express'' else ''Est'' @ [CHR 0xE1] @ ''ndar''"])
    apply (rule exI [of _ base])
    apply (rule exI [of _ "dias_prometidos_de base (d_express_u d < 15/100)"])
    apply (rule exI [of _ "shipped_date f"])
    apply (rule exI [of _ "delivered_date f"])
    apply (rule exI [of _ "days_between (delivered_date f) (shipped_date f)"])
    apply (simp only: R r campos_registro bt nivel_express days_between_def)
    apply simp
    done
qed

theorem promised_actual_delay_witness:
  "valid_registro_draws draws_ejemplo
   \<and> (\<exists>r transportista tipo nivel base prometidos envio entrega reales.
      generar_registro 0 faker_ejemplo draws_ejemplo = Inr r
    \<and> campo r ''shipping_carrier'' = Some (PyStr transportista)
    \<and> campo r ''shipping_type'' = Some (PyStr tipo)
    \<and> campo r ''shipping_tier'' = Some (PyStr nivel)
    \<and> base_transit transportista tipo = Some base
    \<and> prometidos = dias_prometidos_de base (nivel = ''Express'')
    \<and> campo r ''promised_delivery_days'' = Some (PyInt prometidos)
    \<and> campo r ''shipped_date'' = Some (PyDate envio)
    \<and> campo r ''delivered_date'' = Some (PyDate entrega)
    \<and> reales = (entrega - envio) div 86400000000
    \<and> campo r ''actual_delivery_days'' = Some (PyInt reales)
    \<and> campo r ''delivery_delay_days'' = Some (PyInt (reales - prometidos))
    \<and> (\<exists>cumple. campo r ''delivery_met_promise'' = Some (PyInt cumple)
          \<and> (cumple = 1 \<longleftrightarrow> reales - prometidos \<le> 0) \<and> (cumple = 0 \<or> cumple = 1)))"
proof -
  have h: "valid_registro_draws draws_ejemplo"
    by (simp add: valid_registro_draws_def valid_cliente_draws_def valid_producto_draws_def
        valid_fechas_draws_def valid_pago_draws_def unit_draw_def draws_ejemplo_def
        estados_mexico_def categorias_def transportistas_def metodos_pago_def
        canales_venta_def)
  from h promised_actual_delay [OF h, of 0 faker_ejemplo] show ?thesis by (rule conjI)
qed

lemma valid_draws_ejemplo: "valid_registro_draws draws_ejemplo"
    by (simp add: valid_registro_draws_def valid_cliente_draws_def valid_producto_draws_def
        valid_fechas_draws_def valid_pago_draws_def unit_draw_def draws_ejemplo_def
        estados_mexico_def categorias_def transportistas_def metodos_pago_def
        canales_venta_def)

lemma tiempo_entrega_Inr:
  "calcular_tiempo_entrega t orig e alta fd = Inr n \<Longrightarrow> 1 \<le> n"
  by (auto simp: calcular_tiempo_entrega_def Let_def split: sum.splits)

lemma timedelta_days_mono: "a \<le> b \<Longrightarrow> timedelta_days a \<le> timedelta_days b"
  by (simp add: timedelta_days_def)

lemma days_between_timedelta: "days_between (t + timedelta_days n) t = n"
  by (simp add: days_between_def timedelta_days_def)

section \<open>Actual delivery days and the stored delivery days\<close>

text \<open>
  C10. For valid draws the actual delivery days of the record are the maximum of 1 and
  its stored delivery days, so they are at least 1; and the stored delivery days can be
  0: there are valid draws whose record stores 0 delivery days and 1 actual day.
\<close>

theorem actual_days_floor:
  "(\<forall>d i fk. valid_registro_draws d \<longrightarrow>
      (\<exists>r dias reales. generar_registro i fk d = Inr r
        \<and> campo r ''delivery_days'' = Some (PyInt dias)
        \<and> campo r ''actual_delivery_days'' = Some (PyInt reales)
        \<and> reales = max 1 dias \<and> 1 \<le> reales))
   \<and> (\<exists>d i fk r. valid_registro_draws d \<and> valid_faker_draws fk
        \<and> generar_registro i fk d = Inr r
        \<and> campo r ''delivery_days'' = Some (PyInt 0)
        \<and> campo r ''actual_delivery_days'' = Some (PyInt 1))"
proof (intro conjI allI impI)
  fix d i fk
  assume v: "valid_registro_draws d"
  from generar_registro_total [OF v] obtain r where R: "generar_registro i fk d = Inr r"
    by blast
  from R obtain f p costo km cli pago calif tiempos base where
    F: "generar_fechas_realistas (d_transportista d) (d_estado d) fk (d_fechas d) = Inr f" and
    r: "r = registro (''ECOMMX-2024-'' @ format_05d i) (''CUST-'' @ str_int (f_customer fk)) f
           (dias_prometidos_de base (d_express_u d < 15/100))
           (days_between (delivered_date f) (shipped_date f))
           (days_between (delivered_date f) (shipped_date f)
              - dias_prometidos_de base (d_express_u d < 15/100))
           (d_categoria d) p (product_price_mxn p * of_int (quantity p) + costo)
           (d_transportista d) (d_express_u d < 15/100) costo
           km (tipo_distancia_de (d_estado d)) (d_estado d)
           (get_region_from_estado (d_estado d)) cli (d_urbano_u d) pago
           (d_canal d) calif (d_problema d)"
    by (rule generar_registro_Inr)
  note f = generar_fechas_Inr [OF F]
  have reales: "days_between (delivered_date f) (shipped_date f) = max 1 (delivery_days f)"
    by (simp only: f(4) days_between_timedelta)
  show "\<exists>r dias reales. generar_registro i fk d = Inr r
        \<and> campo r ''delivery_days'' = Some (PyInt dias)
        \<and> campo r ''actual_delivery_days'' = Some (PyInt reales)
        \<and> reales = max 1 dias \<and> 1 \<le> reales"
    apply (rule exI [of _ r])
    apply (rule exI [of _ "delivery_days f"])
    apply (rule exI [of _ "max 1 (delivery_days f)"])
    apply (simp only: R r campos_registro reales)
    apply simp
    done
next
  have F: "generar_fechas_realistas (d_transportista draws_ejemplo) (d_estado draws_ejemplo)
             faker_ejemplo (d_fechas draws_ejemplo)
           = Inr \<lparr>order_date = 1673443264000000, shipped_date = 1673529664000000,
                  delivered_date = 1673616064000000, processing_days = 1, delivery_days = 0\<rparr>"
    by code_simp
  from generar_registro_total [OF valid_draws_ejemplo] obtain r where
    R: "generar_registro 0 faker_ejemplo draws_ejemplo = Inr r" by blast
  from R obtain f p costo km cli pago calif tiempos base where
    F': "generar_fechas_realistas (d_transportista draws_ejemplo) (d_estado draws_ejemplo)
          faker_ejemplo (d_fechas draws_ejemplo) = Inr f" and
    r: "r = registro (''ECOMMX-2024-'' @ format_05d 0)
           (''CUST-'' @ str_int (f_customer faker_ejemplo)) f
           (dias_prometidos_de base (d_express_u draws_ejemplo < 15/100))
           (days_between (delivered_date f) (shipped_date f))
           (days_between (delivered_date f) (shipped_date f)
              - dias_prometidos_de base (d_express_u draws_ejemplo < 15/100))
           (d_categoria draws_ejemplo) p (product_price_mxn p * of_int (quantity p) + costo)
           (d_transportista draws_ejemplo) (d_express_u draws_ejemplo < 15/100) costo
           km (tipo_distancia_de (d_estado draws_ejemplo)) (d_estado draws_ejemplo)
           (get_region_from_estado (d_estado draws_ejemplo)) cli (d_urbano_u draws_ejemplo) pago
           (d_canal draws_ejemplo) calif (d_problema draws_ejemplo)"
    by (rule generar_registro_Inr)
  from F F' have f: "f = \<lparr>order_date = 1673443264000000, shipped_date = 1673529664000000,
                  delivered_date = 1673616064000000, processing_days = 1, delivery_days = 0\<rparr>"
    by simp
  have vf: "valid_faker_draws faker_ejemplo"
    by (simp add: valid_faker_draws_def faker_ejemplo_def un_ano_def)
  show "\<exists>d i fk r. valid_registro_draws d \<and> valid_faker_draws fk
        \<and> generar_registro i fk d = Inr r
        \<and> campo r ''delivery_days'' = Some (PyInt 0)
        \<and> campo r ''actual_delivery_days'' = Some (PyInt 1)"
    apply (rule exI [of _ draws_ejemplo])
    apply (rule exI [of _ 0])
    apply (rule exI [of _ faker_ejemplo])
    apply (rule exI [of _ r])
    apply (simp only: R valid_draws_ejemplo vf r campos_registro f)
    apply (simp add: days_between_def)
    done
qed


theorem actual_days_floor_witness:
  "valid_registro_draws draws_ejemplo
   \<and> (\<exists>r dias reales. generar_registro 0 faker_ejemplo draws_ejemplo = Inr r
        \<and> campo r ''delivery_days'' = Some (PyInt dias)
        \<and> campo r ''actual_delivery_days'' = Some (PyInt reales)
        \<and> reales = max 1 dias \<and> 1 \<le> reales)"
proof -
  have h: "valid_registro_draws draws_ejemplo"
    by (rule valid_draws_ejemplo)
  from actual_days_floor have
    "valid_registro_draws draws_ejemplo \<longrightarrow>
      (\<exists>r dias reales. generar_registro 0 faker_ejemplo draws_ejemplo = Inr r
        \<and> campo r ''delivery_days'' = Some (PyInt dias)
        \<and> campo r ''actual_delivery_days'' = Some (PyInt reales)
        \<and> reales = max 1 dias \<and> 1 \<le> reales)"
    by blast
  with h show ?thesis by blast
qed

section \<open>Cells and frames of a table\<close>

lemma col_pos_None: "col_pos cols c = None \<longleftrightarrow> c \<notin> set cols"
  by (induction cols) auto

lemma col_pos_Some: "c \<in> set cols \<Longrightarrow> \<exists>j. col_pos cols c = Some j"
  using col_pos_None [of cols c] by (cases "col_pos cols c") auto

lemma col_pos_nth: "col_pos cols c = Some j \<Longrightarrow> j < length cols \<and> cols ! j = c"
  by (induction cols arbitrary: j) (auto split: if_splits)

lemma at_set_marco:
  assumes "at_set df idx col v = Inr df'" "col \<in> set (df_columns df)"
  shows "mismo_marco df idx df'"
proof -
  from col_pos_Some [OF assms(2)] obtain j where "col_pos (df_columns df) col = Some j" by blast
  with assms(1) show ?thesis
    by (auto simp: at_set_def mismo_marco_def split: if_splits)
qed

lemma iloc_set_marco:
  assumes "iloc_set df idx fila = Inr df'"
  shows "mismo_marco df idx df'"
  using assms by (auto simp: iloc_set_def mismo_marco_def split: if_splits)

lemma mismo_marco_refl: "mismo_marco df idx df"
  by (simp add: mismo_marco_def)

lemma mismo_marco_trans:
  "mismo_marco df idx df1 \<Longrightarrow> mismo_marco df1 idx df2 \<Longrightarrow> mismo_marco df idx df2"
  by (simp add: mismo_marco_def)

lemma aplicar_error_marco:
  assumes "aplicar_error df idx ed = Inr df'" "columnas_presentes df"
    and "e_columna ed \<in> set [''product_price_mxn'', ''shipping_cost_mxn'',
                             ''customer_loyalty_months'', ''distance_km'']"
  shows "mismo_marco df idx df'"
proof -
  from assms(2) have cols:
    "''product_price_mxn'' \<in> set (df_columns df)" "''shipping_cost_mxn'' \<in> set (df_columns df)"
    "''customer_loyalty_months'' \<in> set (df_columns df)" "''distance_km'' \<in> set (df_columns df)"
    "''shipping_carrier'' \<in> set (df_columns df)" "''customer_state'' \<in> set (df_columns df)"
    "''order_id'' \<in> set (df_columns df)" "''delivered_date'' \<in> set (df_columns df)"
    "''shipped_date'' \<in> set (df_columns df)"
    by (simp_all add: columnas_presentes_def)
  from assms(3) cols have colm: "e_columna ed \<in> set (df_columns df)" by auto
  consider (missing) "e_tipo_error ed = ''missing''"
    | (outlier) "e_tipo_error ed = ''outlier''"
    | (typo) "e_tipo_error ed = ''typo''"
    | (duplicate) "e_tipo_error ed = ''duplicate''"
    | (inconsistent) "e_tipo_error ed = ''inconsistent''"
    | (otro) "e_tipo_error ed \<notin> set [''missing'', ''outlier'', ''typo'', ''duplicate'', ''inconsistent'']"
    by auto
  then show ?thesis
  proof cases
    case missing
    with assms(1) have "at_set df idx (e_columna ed) PyNaN = Inr df'"
      by (simp add: aplicar_error_def)
    then show ?thesis using colm by (rule at_set_marco)
  next
    case outlier
    with assms(1) show ?thesis
      by (auto simp: aplicar_error_def split: if_splits sum.splits
          intro: at_set_marco cols)
  next
    case typo
    with assms(1) show ?thesis
      by (auto simp: aplicar_error_def split: if_splits sum.splits
          intro: at_set_marco cols)
  next
    case duplicate
    show ?thesis
    proof (cases "idx > 0")
      case True
      with duplicate assms(1) obtain anterior df1 v s where
        1: "iloc_set df idx anterior = Inr df1" and
        2: "at_set df1 idx ''order_id'' (PyStr (''DUPE-'' @ s)) = Inr df'"
        by (auto simp: aplicar_error_def split: sum.splits)
      from iloc_set_marco [OF 1] have m1: "mismo_marco df idx df1" .
      then have "''order_id'' \<in> set (df_columns df1)" using cols by (simp add: mismo_marco_def)
      from at_set_marco [OF 2 this] m1 show ?thesis by (rule mismo_marco_trans [rotated])
    next
      case False
      with duplicate assms(1) show ?thesis by (simp add: aplicar_error_def mismo_marco_refl)
    qed
  next
    case inconsistent
    with assms(1) show ?thesis
      by (auto simp: aplicar_error_def split: if_splits sum.splits
          intro: at_set_marco cols)
  next
    case otro
    with assms(1) show ?thesis by (auto simp: aplicar_error_def mismo_marco_refl)
  qed
qed

lemma columnas_presentes_marco:
  "mismo_marco df idx df' \<Longrightarrow> columnas_presentes df \<Longrightarrow> columnas_presentes df'"
  by (simp add: mismo_marco_def columnas_presentes_def)

lemma errores_loop_marco:
  assumes "errores_loop df idxs k eds = Inr df'" "columnas_presentes df"
    and "\<And>j. e_columna (eds j) \<in> set [''product_price_mxn'', ''shipping_cost_mxn'',
                             ''customer_loyalty_months'', ''distance_km'']"
  shows "df_columns df' = df_columns df \<and> length (df_rows df') = length (df_rows df)
     \<and> (\<forall>i. i \<notin> set idxs \<longrightarrow> df_rows df' ! i = df_rows df ! i)"
  using assms(1,2)
proof (induction idxs arbitrary: df k)
  case Nil
  then show ?case by simp
next
  case (Cons idx resto)
  from Cons.prems(1) obtain df1 where
    1: "aplicar_error df idx (eds k) = Inr df1" and
    2: "errores_loop df1 resto (Suc k) eds = Inr df'"
    by (auto split: sum.splits)
  from aplicar_error_marco [OF 1 Cons.prems(2) assms(3)] have m: "mismo_marco df idx df1" .
  from Cons.IH [OF 2 columnas_presentes_marco [OF m Cons.prems(2)]] m
  show ?case by (auto simp: mismo_marco_def)
qed

lemma n_errores_5: "n_errores n (5/100) = int (n div 20)"
proof -
  have "real n * (5/100) = real n / real 20" by simp
  then have "\<lfloor>real n * (5/100)\<rfloor> = int (n div 20)"
    by (simp only: floor_divide_of_nat_eq)
  then show ?thesis by (simp add: n_errores_def py_int_def)
qed


lemma celda_eq:
  "celda df i col =
     (case col_pos (df_columns df) col of
        None \<Rightarrow> None
      | Some j \<Rightarrow> if i < length (df_rows df) then Some (df_rows df ! i ! j) else None)"
  by (simp add: celda_def at_get_def split: option.splits)

lemma at_get_celda: "at_get df i col = Inr v \<longleftrightarrow> celda df i col = Some v"
  by (auto simp: celda_def split: sum.splits)

lemma col_pos_inj:
  "col_pos cols c = Some j \<Longrightarrow> col_pos cols c' = Some j \<Longrightarrow> c = c'"
  using col_pos_nth by metis

lemma celda_at_set:
  assumes "at_set df idx col v = Inr df'" "col \<in> set (df_columns df)" "rectangular df"
  shows "celda df' i c = (if i = idx \<and> c = col then Some v else celda df i c)"
proof -
  from col_pos_Some [OF assms(2)] obtain j where j: "col_pos (df_columns df) col = Some j"
    by blast
  from assms(1) have idx: "idx < length (df_rows df)"
    by (simp add: at_set_def split: if_splits)
  with j assms(1) have df': "df' = df\<lparr>df_rows := (df_rows df)[idx := (df_rows df ! idx)[j := v]]\<rparr>"
    by (simp add: at_set_def)
  from idx assms(3) have len: "length (df_rows df ! idx) = length (df_columns df)"
    by (simp add: rectangular_def)
  from col_pos_nth [OF j] have jlt: "j < length (df_columns df)" by simp
  show ?thesis
  proof (cases "col_pos (df_columns df) c")
    case None
    then show ?thesis using j by (auto simp: celda_eq df')
  next
    case (Some j')
    show ?thesis
    proof (cases "i = idx")
      case True
      show ?thesis
      proof (cases "c = col")
        case True
        with \<open>i = idx\<close> j idx len jlt show ?thesis by (simp add: celda_eq df')
      next
        case False
        with Some j have "j' \<noteq> j" using col_pos_inj by metis
        with \<open>i = idx\<close> False Some idx show ?thesis by (simp add: celda_eq df')
      qed
    next
      case False
      with Some show ?thesis by (simp add: celda_eq df')
    qed
  qed
qed

lemma rectangular_at_set:
  assumes "at_set df idx col v = Inr df'" "col \<in> set (df_columns df)" "rectangular df"
  shows "rectangular df'"
proof -
  from col_pos_Some [OF assms(2)] obtain j where j: "col_pos (df_columns df) col = Some j"
    by blast
  from assms(1) have idx: "idx < length (df_rows df)"
    by (simp add: at_set_def split: if_splits)
  with j assms(1) have df': "df' = df\<lparr>df_rows := (df_rows df)[idx := (df_rows df ! idx)[j := v]]\<rparr>"
    by (simp add: at_set_def)
  from idx assms(3) have len: "length (df_rows df ! idx) = length (df_columns df)"
    by (simp add: rectangular_def)
  show ?thesis
    using assms(3) len unfolding rectangular_def df'
    by (auto dest!: set_update_subset_insert [THEN subsetD])
qed

lemma celda_iloc_set:
  assumes "iloc_set df idx fila = Inr df'"
  shows "celda df' i c =
     (if i = idx then (case col_pos (df_columns df) c of None \<Rightarrow> None | Some j \<Rightarrow> Some (fila ! j))
      else celda df i c)"
  using assms by (auto simp: iloc_set_def celda_eq split: if_splits option.splits)

text \<open>
  C4, as amended. The duplicate defect on the first row returns the table unchanged. On
  another row \<open>idx\<close> of a table whose rows have a value under each column, whose row
  before holds the order id \<open>s\<close>, it returns a table where every field of row \<open>idx\<close> but
  the order id equals the field of the row before as it was, the order id of row \<open>idx\<close>
  is \<open>DUPE-\<close> before \<open>s\<close>, the order id of the row before (the id is read after the row is
  overwritten), and the other rows, the columns and the number of rows are as before.
\<close>

theorem duplicate_defect:
  assumes "e_tipo_error ed = ''duplicate''"
  shows "(idx = 0 \<longrightarrow> aplicar_error df idx ed = Inr df)
     \<and> (0 < idx \<and> idx < length (df_rows df) \<and> rectangular df
          \<and> celda df (idx - 1) ''order_id'' = Some (PyStr s) \<longrightarrow>
        (\<exists>df'. aplicar_error df idx ed = Inr df'
           \<and> celda df' idx ''order_id'' = Some (PyStr (''DUPE-'' @ s))
           \<and> (\<forall>col. col \<noteq> ''order_id'' \<longrightarrow> celda df' idx col = celda df (idx - 1) col)
           \<and> (\<forall>i. i \<noteq> idx \<longrightarrow> df_rows df' ! i = df_rows df ! i)
           \<and> df_columns df' = df_columns df
           \<and> length (df_rows df') = length (df_rows df)))"
proof (intro conjI impI)
  assume "idx = 0"
  with assms show "aplicar_error df idx ed = Inr df" by (simp add: aplicar_error_def)
next
  assume a: "0 < idx \<and> idx < length (df_rows df) \<and> rectangular df
          \<and> celda df (idx - 1) ''order_id'' = Some (PyStr s)"
  then have pos: "0 < idx" and idx: "idx < length (df_rows df)" and rect: "rectangular df"
    and ant: "celda df (idx - 1) ''order_id'' = Some (PyStr s)" by simp_all
  define anterior where "anterior = df_rows df ! (idx - 1)"
  define df1 where "df1 = df\<lparr>df_rows := (df_rows df)[idx := anterior]\<rparr>"
  from ant obtain j where j: "col_pos (df_columns df) ''order_id'' = Some j"
    and aj: "anterior ! j = PyStr s"
    by (auto simp: celda_eq anterior_def split: option.splits if_splits)
  have oid: "''order_id'' \<in> set (df_columns df)" using j col_pos_None [of "df_columns df" "''order_id''"] by auto
  have g: "iloc_get df (idx - 1) = Inr anterior" using idx by (simp add: iloc_get_def anterior_def)
  have s1: "iloc_set df idx anterior = Inr df1" using idx by (simp add: iloc_set_def df1_def)
  have rect1: "rectangular df1"
    using rect idx unfolding rectangular_def df1_def anterior_def
    by (auto dest!: set_update_subset_insert [THEN subsetD])
  have c1: "celda df1 idx ''order_id'' = Some (PyStr s)"
    using celda_iloc_set [OF s1, of idx "''order_id''"] j aj by simp
  then have g1: "at_get df1 idx ''order_id'' = Inr (PyStr s)" by (simp add: at_get_celda)
  have idx1: "idx < length (df_rows df1)" using idx by (simp add: df1_def)
  have oid1: "''order_id'' \<in> set (df_columns df1)" using oid by (simp add: df1_def)
  from col_pos_Some [OF oid1] idx1 obtain df' where
    s2: "at_set df1 idx ''order_id'' (PyStr (''DUPE-'' @ s)) = Inr df'"
    by (auto simp: at_set_def)
  have res: "aplicar_error df idx ed = Inr df'"
    using assms pos g s1 g1 s2 by (simp add: aplicar_error_def py_str_def)
  note c2 = celda_at_set [OF s2 oid1 rect1]
  from at_set_marco [OF s2 oid1] have m2: "mismo_marco df1 idx df'" .
  have "celda df' idx ''order_id'' = Some (PyStr (''DUPE-'' @ s))" by (simp add: c2)
  moreover have k1: "celda df1 idx col = celda df (idx - 1) col" for col
  proof -
    from idx have "idx - 1 < length (df_rows df)" by simp
    then show ?thesis
      by (simp add: celda_iloc_set [OF s1] celda_eq [of df] anterior_def split: option.splits)
  qed
  have "\<forall>col. col \<noteq> ''order_id'' \<longrightarrow> celda df' idx col = celda df (idx - 1) col"
    by (simp add: c2 k1)
  moreover have "\<forall>i. i \<noteq> idx \<longrightarrow> df_rows df' ! i = df_rows df ! i"
    using m2 by (simp add: mismo_marco_def df1_def)
  moreover have "df_columns df' = df_columns df" "length (df_rows df') = length (df_rows df)"
    using m2 by (simp_all add: mismo_marco_def df1_def)
  ultimately show "\<exists>df'. aplicar_error df idx ed = Inr df'
           \<and> celda df' idx ''order_id'' = Some (PyStr (''DUPE-'' @ s))
           \<and> (\<forall>col. col \<noteq> ''order_id'' \<longrightarrow> celda df' idx col = celda df (idx - 1) col)
           \<and> (\<forall>i. i \<noteq> idx \<longrightarrow> df_rows df' ! i = df_rows df ! i)
           \<and> df_columns df' = df_columns df
           \<and> length (df_rows df') = length (df_rows df)"
    using res by blast
qed


lemma at_set_ok: "idx < length (df_rows df) \<Longrightarrow> \<exists>df'. at_set df idx col v = Inr df'"
  by (simp add: at_set_def split: option.splits)

lemma celda_Some:
  "c \<in> set (df_columns df) \<Longrightarrow> i < length (df_rows df) \<Longrightarrow> \<exists>v. celda df i c = Some v"
  using col_pos_Some [of c "df_columns df"] by (auto simp: celda_eq)

lemma tipada_at_set:
  assumes "tabla_tipada df" "at_set df idx col v = Inr df'" "col \<in> set (df_columns df)"
    "valor_tipado col v"
  shows "tabla_tipada df'"
proof -
  from assms(1) have rect: "rectangular df" by (simp add: tabla_tipada_def)
  note c = celda_at_set [OF assms(2,3) rect]
  from at_set_marco [OF assms(2,3)] have m: "mismo_marco df idx df'" .
  have "rectangular df'" by (rule rectangular_at_set [OF assms(2,3) rect])
  moreover have "df_rows df' \<noteq> [] \<longrightarrow> columnas_presentes df'"
    using assms(1) m by (auto simp: tabla_tipada_def mismo_marco_def columnas_presentes_def)
  moreover have "\<forall>i c v. celda df' i c = Some v \<longrightarrow> valor_tipado c v"
    using assms(1,4) by (auto simp: c tabla_tipada_def split: if_splits)
  ultimately show ?thesis by (simp add: tabla_tipada_def)
qed

lemma tipada_celda:
  assumes "tabla_tipada df" "idx < length (df_rows df)"
  shows "\<exists>s. at_get df idx ''shipping_carrier'' = Inr (PyStr s)"
    and "\<exists>s. at_get df idx ''customer_state'' = Inr (PyStr s)"
    and "\<exists>s. at_get df idx ''order_id'' = Inr (PyStr s)"
    and "(\<exists>x. at_get df idx ''product_price_mxn'' = Inr (PyFloat x))
         \<or> at_get df idx ''product_price_mxn'' = Inr PyNaN"
    and "\<exists>t. at_get df idx ''shipped_date'' = Inr (PyDate t)"
    and "\<exists>t. at_get df idx ''order_date'' = Inr (PyDate t)"
proof -
  from assms have cp: "columnas_presentes df" by (auto simp: tabla_tipada_def)
  from assms(1) have ty: "\<And>c v. celda df idx c = Some v \<Longrightarrow> valor_tipado c v"
    by (simp add: tabla_tipada_def)
  have ex: "\<And>c. c \<in> set (df_columns df) \<Longrightarrow> \<exists>v. celda df idx c = Some v"
    using assms(2) by (rule celda_Some [rotated])
  from cp have cols: "''shipping_carrier'' \<in> set (df_columns df)"
    "''customer_state'' \<in> set (df_columns df)" "''order_id'' \<in> set (df_columns df)"
    "''product_price_mxn'' \<in> set (df_columns df)" "''shipped_date'' \<in> set (df_columns df)"
    "''order_date'' \<in> set (df_columns df)"
    by (simp_all add: columnas_presentes_def)
  from ex [OF cols(1)] obtain v where v: "celda df idx ''shipping_carrier'' = Some v" by blast
  from ty [OF v] v show "\<exists>s. at_get df idx ''shipping_carrier'' = Inr (PyStr s)"
    by (cases v) (simp_all add: valor_tipado_def at_get_celda)
  from ex [OF cols(2)] obtain v where v: "celda df idx ''customer_state'' = Some v" by blast
  from ty [OF v] v show "\<exists>s. at_get df idx ''customer_state'' = Inr (PyStr s)"
    by (cases v) (simp_all add: valor_tipado_def at_get_celda)
  from ex [OF cols(3)] obtain v where v: "celda df idx ''order_id'' = Some v" by blast
  from ty [OF v] v show "\<exists>s. at_get df idx ''order_id'' = Inr (PyStr s)"
    by (cases v) (simp_all add: valor_tipado_def at_get_celda)
  from ex [OF cols(4)] obtain v where v: "celda df idx ''product_price_mxn'' = Some v" by blast
  from ty [OF v] v show "(\<exists>x. at_get df idx ''product_price_mxn'' = Inr (PyFloat x))
         \<or> at_get df idx ''product_price_mxn'' = Inr PyNaN"
    by (cases v) (simp_all add: valor_tipado_def at_get_celda)
  from ex [OF cols(5)] obtain v where v: "celda df idx ''shipped_date'' = Some v" by blast
  from ty [OF v] v show "\<exists>t. at_get df idx ''shipped_date'' = Inr (PyDate t)"
    by (cases v) (simp_all add: valor_tipado_def at_get_celda)
  from ex [OF cols(6)] obtain v where v: "celda df idx ''order_date'' = Some v" by blast
  from ty [OF v] v show "\<exists>t. at_get df idx ''order_date'' = Inr (PyDate t)"
    by (cases v) (simp_all add: valor_tipado_def at_get_celda)
qed

section \<open>The pass returns on a table of the generator's kinds\<close>

lemma tipada_iloc_set:
  assumes "tabla_tipada df" "idx < length (df_rows df)" "j < length (df_rows df)"
  shows "\<exists>df1. iloc_set df idx (df_rows df ! j) = Inr df1 \<and> tabla_tipada df1
           \<and> mismo_marco df idx df1"
proof -
  define df1 where "df1 = df\<lparr>df_rows := (df_rows df)[idx := df_rows df ! j]\<rparr>"
  have s1: "iloc_set df idx (df_rows df ! j) = Inr df1"
    using assms(2) by (simp add: iloc_set_def df1_def)
  from assms(1) have rect: "rectangular df" by (simp add: tabla_tipada_def)
  have rect1: "rectangular df1"
    using rect assms(2,3) unfolding rectangular_def df1_def
    by (auto dest!: set_update_subset_insert [THEN subsetD])
  have m: "mismo_marco df idx df1" by (rule iloc_set_marco [OF s1])
  have c: "celda df1 i c = (if i = idx then celda df j c else celda df i c)" for i c
    using assms(3)
    by (simp add: celda_iloc_set [OF s1] celda_eq [of df] split: option.splits)
  have "\<forall>i c v. celda df1 i c = Some v \<longrightarrow> valor_tipado c v"
    using assms(1) by (auto simp: c tabla_tipada_def split: if_splits)
  moreover have "df_rows df1 \<noteq> [] \<longrightarrow> columnas_presentes df1"
    using assms(1) m by (auto simp: tabla_tipada_def mismo_marco_def columnas_presentes_def)
  ultimately have "tabla_tipada df1" using rect1 by (simp add: tabla_tipada_def)
  with s1 m show ?thesis by blast
qed

lemma tipada_marco:
  "tabla_tipada df \<Longrightarrow> idx < length (df_rows df) \<Longrightarrow> columnas_presentes df"
  by (auto simp: tabla_tipada_def)

lemma aplicar_error_ok:
  assumes t: "tabla_tipada df" and idx: "idx < length (df_rows df)"
    and v: "valid_error_draws ed"
  shows "\<exists>df'. aplicar_error df idx ed = Inr df' \<and> tabla_tipada df'"
proof -
  from tipada_marco [OF t idx] have cp: "columnas_presentes df" .
  then have cols:
    "''product_price_mxn'' \<in> set (df_columns df)" "''shipping_cost_mxn'' \<in> set (df_columns df)"
    "''customer_loyalty_months'' \<in> set (df_columns df)" "''distance_km'' \<in> set (df_columns df)"
    "''shipping_carrier'' \<in> set (df_columns df)" "''customer_state'' \<in> set (df_columns df)"
    "''order_id'' \<in> set (df_columns df)" "''delivered_date'' \<in> set (df_columns df)"
    "''shipped_date'' \<in> set (df_columns df)"
    by (simp_all add: columnas_presentes_def)
  note tc = tipada_celda [OF t idx]
  have step: "\<exists>df'. at_set df idx col w = Inr df' \<and> tabla_tipada df'"
    if "col \<in> set (df_columns df)" "valor_tipado col w" for col w
  proof -
    from at_set_ok [OF idx] obtain df' where s: "at_set df idx col w = Inr df'" by blast
    from tipada_at_set [OF t s that] s show ?thesis by blast
  qed
  from v consider (missing) "e_tipo_error ed = ''missing''"
    | (outlier) "e_tipo_error ed = ''outlier''"
    | (typo) "e_tipo_error ed = ''typo''"
    | (duplicate) "e_tipo_error ed = ''duplicate''"
    | (inconsistent) "e_tipo_error ed = ''inconsistent''"
    by (auto simp: valid_error_draws_def)
  then show ?thesis
  proof cases
    case missing
    from v have c: "e_columna ed \<in> set [''product_price_mxn'', ''shipping_cost_mxn'',
                             ''customer_loyalty_months'', ''distance_km'']"
      by (simp add: valid_error_draws_def)
    with cols have "e_columna ed \<in> set (df_columns df)" by auto
    moreover from c have "valor_tipado (e_columna ed) PyNaN"
      by (auto simp: valor_tipado_def)
    ultimately show ?thesis using step missing by (simp add: aplicar_error_def)
  next
    case outlier
    show ?thesis
    proof (cases "e_u ed > 1/2")
      case True
      from tc(4) obtain w where g: "at_get df idx ''product_price_mxn'' = Inr w"
        and f: "\<exists>w'. float_times w 100 = Inr w' \<and> valor_tipado ''product_price_mxn'' w'"
        by (auto simp: float_times_def valor_tipado_def)
      from f obtain w' where f': "float_times w 100 = Inr w'"
        and ty: "valor_tipado ''product_price_mxn'' w'" by blast
      from step [OF cols(1) ty] outlier True g f' show ?thesis
        by (simp add: aplicar_error_def)
    next
      case False
      have "valor_tipado ''distance_km'' (PyInt (e_distancia ed))"
        by (simp add: valor_tipado_def)
      from step [OF cols(4) this] outlier False show ?thesis
        by (simp add: aplicar_error_def)
    qed
  next
    case typo
    show ?thesis
    proof (cases "e_u ed > 1/2")
      case True
      from tc(1) obtain s where g: "at_get df idx ''shipping_carrier'' = Inr (PyStr s)" by blast
      have "valor_tipado ''shipping_carrier'' (PyStr ('' '' @ s))" by (simp add: valor_tipado_def)
      from step [OF cols(5) this] typo True g show ?thesis
        by (simp add: aplicar_error_def py_str_def)
    next
      case False
      from tc(2) obtain s where g: "at_get df idx ''customer_state'' = Inr (PyStr s)" by blast
      have "valor_tipado ''customer_state'' (PyStr (lower s))" by (simp add: valor_tipado_def)
      from step [OF cols(6) this] typo False g show ?thesis
        by (simp add: aplicar_error_def py_str_def)
    qed
  next
    case duplicate
    show ?thesis
    proof (cases "idx > 0")
      case True
      with idx have j: "idx - 1 < length (df_rows df)" by simp
      from tipada_iloc_set [OF t idx j] obtain df1 where
        s1: "iloc_set df idx (df_rows df ! (idx - 1)) = Inr df1" and t1: "tabla_tipada df1"
        and m1: "mismo_marco df idx df1" by blast
      from m1 idx have idx1: "idx < length (df_rows df1)" by (simp add: mismo_marco_def)
      from m1 cols have oid1: "''order_id'' \<in> set (df_columns df1)" by (simp add: mismo_marco_def)
      from tipada_celda(3) [OF t1 idx1] obtain s where
        g1: "at_get df1 idx ''order_id'' = Inr (PyStr s)" by blast
      from at_set_ok [OF idx1] obtain df' where
        s2: "at_set df1 idx ''order_id'' (PyStr (''DUPE-'' @ s)) = Inr df'" by blast
      have "valor_tipado ''order_id'' (PyStr (''DUPE-'' @ s))" by (simp add: valor_tipado_def)
      from tipada_at_set [OF t1 s2 oid1 this] have "tabla_tipada df'" .
      moreover have "aplicar_error df idx ed = Inr df'"
        using duplicate True j s1 g1 s2 by (simp add: aplicar_error_def iloc_get_def py_str_def)
      ultimately show ?thesis by blast
    next
      case False
      with duplicate t show ?thesis by (simp add: aplicar_error_def)
    qed
  next
    case inconsistent
    show ?thesis
    proof (cases "e_u ed > 1/2")
      case True
      from tc(5) obtain ts where g: "at_get df idx ''shipped_date'' = Inr (PyDate ts)" by blast
      have "valor_tipado ''delivered_date'' (PyDate (ts - timedelta_days 2))"
        by (simp add: valor_tipado_def)
      from step [OF cols(8) this] inconsistent True g show ?thesis
        by (simp add: aplicar_error_def minus_timedelta_days_def)
    next
      case False
      from tc(6) obtain ts where g: "at_get df idx ''order_date'' = Inr (PyDate ts)" by blast
      have "valor_tipado ''shipped_date'' (PyDate (ts - timedelta_days 1))"
        by (simp add: valor_tipado_def)
      from step [OF cols(9) this] inconsistent False g show ?thesis
        by (simp add: aplicar_error_def minus_timedelta_days_def)
    qed
  qed
qed

lemma errores_loop_ok:
  assumes "tabla_tipada df" "\<forall>i\<in>set idxs. i < length (df_rows df)"
    and v: "\<And>j. valid_error_draws (eds j)"
  shows "\<exists>df'. errores_loop df idxs k eds = Inr df' \<and> tabla_tipada df'"
  using assms(1,2)
proof (induction idxs arbitrary: df k)
  case Nil
  then show ?case by simp
next
  case (Cons idx resto)
  from Cons.prems have idx: "idx < length (df_rows df)" by simp
  from aplicar_error_ok [OF Cons.prems(1) idx v] obtain df1 where
    1: "aplicar_error df idx (eds k) = Inr df1" and t1: "tabla_tipada df1" by blast
  from v have "e_columna (eds k) \<in> set [''product_price_mxn'', ''shipping_cost_mxn'',
                             ''customer_loyalty_months'', ''distance_km'']"
    by (simp add: valid_error_draws_def)
  from aplicar_error_marco [OF 1 tipada_marco [OF Cons.prems(1) idx] this]
  have "length (df_rows df1) = length (df_rows df)" by (simp add: mismo_marco_def)
  with Cons.prems(2) have "\<forall>i\<in>set resto. i < length (df_rows df1)" by simp
  from Cons.IH [OF t1 this] 1 show ?case by simp
qed

section \<open>The rows that the pass selects and the rows it leaves\<close>

lemma valid_perm_take:
  assumes "valid_perm n perm"
  shows "length (take (n div 20) perm) = n div 20" "distinct (take (n div 20) perm)"
    "\<forall>i\<in>set (take (n div 20) perm). i < n"
proof -
  from assms have d: "distinct perm" and s: "set perm = {..<n}" by (simp_all add: valid_perm_def)
  from d s have "length perm = n" using distinct_card [of perm] by simp
  then show "length (take (n div 20) perm) = n div 20" by simp
  from d show "distinct (take (n div 20) perm)" by simp
  from s show "\<forall>i\<in>set (take (n div 20) perm). i < n"
    by (auto dest: in_set_takeD)
qed

lemma errores_en_tabla_5:
  "errores_en_tabla df (5/100) perm eds
   = errores_loop df (take (length (df_rows df) div 20) perm) 0 eds"
proof -
  have "\<not> int (length (df_rows df)) < int (length (df_rows df) div 20)"
    by (simp add: not_less)
  then show ?thesis
    unfolding errores_en_tabla_def Let_def n_errores_5 by simp
qed

lemma filas_distintas_le:
  assumes "\<forall>i. i \<notin> set sel \<longrightarrow> df_rows df' ! i = df_rows df ! i"
  shows "filas_distintas df df' \<le> length sel"
proof -
  let ?P = "\<lambda>i. df_rows df' ! i \<noteq> df_rows df ! i"
  have "set (filter ?P [0..<length (df_rows df)]) \<subseteq> set sel"
    using assms by auto
  then have "card (set (filter ?P [0..<length (df_rows df)])) \<le> card (set sel)"
    by (intro card_mono) simp_all
  moreover have "card (set (filter ?P [0..<length (df_rows df)]))
                 = length (filter ?P [0..<length (df_rows df)])"
    by (intro distinct_card distinct_filter) simp
  moreover have "card (set sel) \<le> length sel" by (rule card_length)
  ultimately show ?thesis by (simp add: filas_distintas_def)
qed

lemma errores_en_tabla_marco:
  assumes "tabla_tipada df" "valid_perm (length (df_rows df)) perm"
    and "\<forall>k. valid_error_draws (eds k)"
  shows "\<exists>df' sel. errores_en_tabla df (5/100) perm eds = Inr df'
     \<and> sel = take (length (df_rows df) div 20) perm
     \<and> length sel = length (df_rows df) div 20 \<and> distinct sel
     \<and> (\<forall>i\<in>set sel. i < length (df_rows df))
     \<and> (\<forall>i. i \<notin> set sel \<longrightarrow> df_rows df' ! i = df_rows df ! i)
     \<and> length (df_rows df') = length (df_rows df)
     \<and> filas_distintas df df' \<le> length (df_rows df) div 20"
proof -
  let ?sel = "take (length (df_rows df) div 20) perm"
  note p = valid_perm_take [OF assms(2)]
  from assms(3) have v: "\<And>j. valid_error_draws (eds j)" by simp
  from errores_loop_ok [where eds = eds and k = 0, OF assms(1) p(3) v] obtain df' where
    r: "errores_loop df ?sel 0 eds = Inr df'" by blast
  then have e: "errores_en_tabla df (5/100) perm eds = Inr df'"
    by (simp only: errores_en_tabla_5)
  show ?thesis
  proof (cases "df_rows df = []")
    case True
    with r have "df' = df" by simp
    with e True show ?thesis by (simp add: filas_distintas_def)
  next
    case False
    with assms(1) have cp: "columnas_presentes df" by (simp add: tabla_tipada_def)
    from v have "\<And>j. e_columna (eds j) \<in> set [''product_price_mxn'', ''shipping_cost_mxn'',
                             ''customer_loyalty_months'', ''distance_km'']"
      by (simp add: valid_error_draws_def)
    from errores_loop_marco [OF r cp this]
    have len: "length (df_rows df') = length (df_rows df)"
      and fr: "\<forall>i. i \<notin> set ?sel \<longrightarrow> df_rows df' ! i = df_rows df ! i" by simp_all
    from filas_distintas_le [OF fr] p(1)
    have "filas_distintas df df' \<le> length (df_rows df) div 20" by simp
    with e p len fr show ?thesis by simp
  qed
qed


lemma agregar_errores_Inr:
  assumes "agregar_errores_controlados h df p perm eds = Inr (h', df')"
  shows "df' = length h" "length h' = Suc (length h)" "\<forall>a<length h. h' ! a = h ! a"
    "errores_en_tabla (h ! df) p perm eds = Inr (h' ! df')"
  using assms
  by (auto simp: agregar_errores_controlados_def Let_def nth_append split: sum.splits)

section \<open>The pass works on a copy\<close>

text \<open>
  C5, as amended. The pass does not write to the table it is given: it copies the table
  and returns the address of the copy, a new object of the store. The table at the
  address passed in, and every other table of the store, is after the call what it was
  before; the table returned has the number of rows and the columns of the table passed
  in.
\<close>

theorem pass_returns_copy:
  assumes "agregar_errores_controlados h df (5/100) perm eds = Inr (h', df')"
    and "df < length h" "columnas_presentes (h ! df)" "\<forall>k. valid_error_draws (eds k)"
  shows "h' ! df = h ! df \<and> df' = length h \<and> df' \<noteq> df \<and> length h' = Suc (length h)
     \<and> (\<forall>a<length h. h' ! a = h ! a)
     \<and> length (df_rows (h' ! df')) = length (df_rows (h ! df))
     \<and> df_columns (h' ! df') = df_columns (h ! df)"
proof -
  note a = agregar_errores_Inr [OF assms(1)]
  from assms(4) have "\<And>j. e_columna (eds j) \<in> set [''product_price_mxn'', ''shipping_cost_mxn'',
                             ''customer_loyalty_months'', ''distance_km'']"
    by (simp add: valid_error_draws_def)
  from errores_loop_marco [OF a(4) [unfolded errores_en_tabla_5] assms(3) this]
  have "df_columns (h' ! df') = df_columns (h ! df)"
    "length (df_rows (h' ! df')) = length (df_rows (h ! df))" by simp_all
  with a assms(2) show ?thesis by simp
qed

section \<open>The example tables\<close>

lemma fila_n: "i < n \<Longrightarrow> df_rows (tabla_ejemplo n) ! i = fila_ejemplo i"
  by (simp add: tabla_ejemplo_def)

lemma len_n: "length (df_rows (tabla_ejemplo n)) = n"
  by (simp add: tabla_ejemplo_def)

lemma tabla_ejemplo_tipada: "tabla_tipada (tabla_ejemplo n)"
proof -
  have "rectangular (tabla_ejemplo n)"
    by (auto simp: rectangular_def tabla_ejemplo_def fila_ejemplo_def)
  moreover have "columnas_presentes (tabla_ejemplo n)"
    by (simp add: columnas_presentes_def tabla_ejemplo_def)
  moreover have "valor_tipado c v" if "celda (tabla_ejemplo n) i c = Some v" for i c v
  proof -
    from that obtain j where j: "col_pos (df_columns (tabla_ejemplo n)) c = Some j"
      and i: "i < n" and v: "v = fila_ejemplo i ! j"
      by (auto simp: celda_eq len_n fila_n split: option.splits if_splits)
    from j v show ?thesis
      by (auto simp: tabla_ejemplo_def fila_ejemplo_def valor_tipado_def split: if_splits)
  qed
  ultimately show ?thesis by (simp add: tabla_tipada_def)
qed


lemma cols_n: "df_columns (tabla_ejemplo n) =
    [''order_id'', ''order_date'', ''shipped_date'', ''delivered_date'',
     ''product_price_mxn'', ''shipping_carrier'', ''shipping_cost_mxn'',
     ''distance_km'', ''customer_state'', ''customer_loyalty_months'']"
  by (simp add: tabla_ejemplo_def)

lemma take_1_upt: "take (20 div 20) [0..<20] = [0]"
  by (simp add: upt_rec)

lemma missing_en_0:
  "errores_en_tabla (tabla_ejemplo 20) (5/100) [0..<20] (siempre error_missing)
   = Inr tabla_ejemplo_nan"
  unfolding tabla_ejemplo_nan_def
  by (simp only: errores_en_tabla_5 len_n take_1_upt errores_loop.simps)
     (simp add: aplicar_error_def siempre_def error_missing_def at_set_def len_n cols_n fila_n
        eval_nat_numeral)



lemma fila_ejemplo_ids:
  "fila_ejemplo 0 ! 0 = PyStr ''ECOMMX-2024-00000''"
  "fila_ejemplo (Suc 0) ! 0 = PyStr ''ECOMMX-2024-00001''"
  by code_simp+

lemma filas_2: "df_rows (tabla_ejemplo 2) = [fila_ejemplo 0, fila_ejemplo (Suc 0)]"
  by (simp add: tabla_ejemplo_def upt_rec)

lemma duplicate_en_1:
  "aplicar_error (tabla_ejemplo 2) 1 error_duplicate
     = Inr ((tabla_ejemplo 2)\<lparr>df_rows :=
              [fila_ejemplo 0, (fila_ejemplo 0)[0 := PyStr ''DUPE-ECOMMX-2024-00000'']]\<rparr>)"
  by (simp add: aplicar_error_def error_duplicate_def iloc_get_def iloc_set_def at_get_def
      at_set_def py_str_def cols_n filas_2 fila_ejemplo_ids)

lemma ids_2:
  "celda (tabla_ejemplo 2) 0 ''order_id'' = Some (PyStr ''ECOMMX-2024-00000'')"
  "celda (tabla_ejemplo 2) 1 ''order_id'' = Some (PyStr ''ECOMMX-2024-00001'')"
  by (simp_all add: celda_eq cols_n filas_2 fila_ejemplo_ids)

theorem duplicate_defect_counterexample:
  "aplicar_error (tabla_ejemplo 2) 1 error_duplicate
     = Inr ((tabla_ejemplo 2)\<lparr>df_rows :=
              [fila_ejemplo 0, (fila_ejemplo 0)[0 := PyStr ''DUPE-ECOMMX-2024-00000'']]\<rparr>)
   \<and> celda (tabla_ejemplo 2) 0 ''order_id'' = Some (PyStr ''ECOMMX-2024-00000'')
   \<and> celda (tabla_ejemplo 2) 1 ''order_id'' = Some (PyStr ''ECOMMX-2024-00001'')
   \<and> celda ((tabla_ejemplo 2)\<lparr>df_rows :=
              [fila_ejemplo 0, (fila_ejemplo 0)[0 := PyStr ''DUPE-ECOMMX-2024-00000'']]\<rparr>)
          1 ''order_id'' = Some (PyStr ''DUPE-ECOMMX-2024-00000'')
   \<and> ''DUPE-ECOMMX-2024-00000'' \<noteq> ''DUPE-'' @ ''ECOMMX-2024-00001''"
proof -
  have "length (fila_ejemplo 0) = 10" by (simp add: fila_ejemplo_def)
  then have "celda ((tabla_ejemplo 2)\<lparr>df_rows :=
              [fila_ejemplo 0, (fila_ejemplo 0)[0 := PyStr ''DUPE-ECOMMX-2024-00000'']]\<rparr>)
          1 ''order_id'' = Some (PyStr ''DUPE-ECOMMX-2024-00000'')"
    by (simp add: celda_eq cols_n)
  with duplicate_en_1 ids_2 show ?thesis by simp
qed

theorem duplicate_defect_witness:
  "e_tipo_error error_duplicate = ''duplicate''
   \<and> rectangular (tabla_ejemplo 2)
   \<and> celda (tabla_ejemplo 2) (1 - 1) ''order_id'' = Some (PyStr ''ECOMMX-2024-00000'')
   \<and> aplicar_error (tabla_ejemplo 2) 0 error_duplicate = Inr (tabla_ejemplo 2)
   \<and> (\<exists>df'. aplicar_error (tabla_ejemplo 2) 1 error_duplicate = Inr df'
           \<and> celda df' 1 ''order_id'' = Some (PyStr (''DUPE-'' @ ''ECOMMX-2024-00000''))
           \<and> (\<forall>col. col \<noteq> ''order_id'' \<longrightarrow>
                 celda df' 1 col = celda (tabla_ejemplo 2) (1 - 1) col)
           \<and> (\<forall>i. i \<noteq> 1 \<longrightarrow> df_rows df' ! i = df_rows (tabla_ejemplo 2) ! i)
           \<and> df_columns df' = df_columns (tabla_ejemplo 2)
           \<and> length (df_rows df') = length (df_rows (tabla_ejemplo 2)))"
proof -
  have h: "e_tipo_error error_duplicate = ''duplicate''" by (simp add: error_duplicate_def)
  have r: "rectangular (tabla_ejemplo 2)"
    using tabla_ejemplo_tipada [of 2] by (simp add: tabla_tipada_def)
  have c: "celda (tabla_ejemplo 2) (1 - 1) ''order_id'' = Some (PyStr ''ECOMMX-2024-00000'')"
    using ids_2(1) by simp
  have l: "(0::nat) < 1 \<and> 1 < length (df_rows (tabla_ejemplo 2))" by (simp add: len_n)
  note d0 = duplicate_defect [OF h, of 0 "tabla_ejemplo 2" "[]", THEN conjunct1, rule_format,
      OF refl]
  note d1 = duplicate_defect [OF h, of 1 "tabla_ejemplo 2" "''ECOMMX-2024-00000''",
      THEN conjunct2, rule_format]
  from l r c have "0 < (1::nat) \<and> 1 < length (df_rows (tabla_ejemplo 2))
          \<and> rectangular (tabla_ejemplo 2)
          \<and> celda (tabla_ejemplo 2) (1 - 1) ''order_id'' = Some (PyStr ''ECOMMX-2024-00000'')"
    by simp
  from d1 [OF this] d0 h r c show ?thesis by blast
qed

lemma precio_ejemplo:
  "celda (tabla_ejemplo 20) 0 ''product_price_mxn'' = Some (PyFloat 4150)"
  "celda tabla_ejemplo_nan 0 ''product_price_mxn'' = Some PyNaN"
  by (simp_all add: celda_eq cols_n len_n fila_n tabla_ejemplo_nan_def fila_ejemplo_def)

lemma agregar_ejemplo:
  "agregar_errores_controlados [tabla_ejemplo 20] 0 (5/100) [0..<20] (siempre error_missing)
     = Inr ([tabla_ejemplo 20, tabla_ejemplo_nan], 1)"
  unfolding agregar_errores_controlados_def Let_def
  by (simp add: missing_en_0 [simplified])

theorem pass_in_place_counterexample:
  "agregar_errores_controlados [tabla_ejemplo 20] 0 (5/100) [0..<20] (siempre error_missing)
     = Inr ([tabla_ejemplo 20, tabla_ejemplo_nan], 1)
   \<and> celda (tabla_ejemplo 20) 0 ''product_price_mxn'' = Some (PyFloat 4150)
   \<and> celda tabla_ejemplo_nan 0 ''product_price_mxn'' = Some PyNaN
   \<and> tabla_ejemplo_nan \<noteq> tabla_ejemplo 20"
proof -
  have "tabla_ejemplo_nan \<noteq> tabla_ejemplo 20"
    using precio_ejemplo by auto
  with agregar_ejemplo precio_ejemplo show ?thesis by simp
qed

theorem pass_returns_copy_witness:
  "agregar_errores_controlados [tabla_ejemplo 20] 0 (5/100) [0..<20] (siempre error_missing)
     = Inr ([tabla_ejemplo 20, tabla_ejemplo_nan], 1)
   \<and> 0 < length [tabla_ejemplo 20]
   \<and> columnas_presentes ([tabla_ejemplo 20] ! 0)
   \<and> valid_error_draws error_missing
   \<and> [tabla_ejemplo 20, tabla_ejemplo_nan] ! 0 = [tabla_ejemplo 20] ! 0
   \<and> (1::nat) = length [tabla_ejemplo 20] \<and> (1::nat) \<noteq> 0
   \<and> length [tabla_ejemplo 20, tabla_ejemplo_nan] = Suc (length [tabla_ejemplo 20])
   \<and> length (df_rows ([tabla_ejemplo 20, tabla_ejemplo_nan] ! 1))
       = length (df_rows ([tabla_ejemplo 20] ! 0))
   \<and> df_columns ([tabla_ejemplo 20, tabla_ejemplo_nan] ! 1) = df_columns ([tabla_ejemplo 20] ! 0)"
proof -
  have l: "0 < length [tabla_ejemplo 20]" by simp
  have c: "columnas_presentes ([tabla_ejemplo 20] ! 0)"
    by (simp add: columnas_presentes_def cols_n)
  have v: "valid_error_draws error_missing"
    by (simp add: valid_error_draws_def error_missing_def unit_draw_def)
  then have vs: "\<forall>k. valid_error_draws (siempre error_missing k)" by (simp add: siempre_def)
  from pass_returns_copy [OF agregar_ejemplo l c vs] agregar_ejemplo l c v
  show ?thesis by simp
qed

section \<open>The table of the records of a run\<close>

lemma claves_registro:
  "map fst (registro oid cid f prom reales dif cat p monto tr ex costo km tipo est reg cli urb pago canal calif prob)
   = [''order_id'', ''customer_id'', ''order_date'', ''shipped_date'', ''delivered_date'',
      ''processing_days'', ''delivery_days'', ''promised_delivery_days'',
      ''actual_delivery_days'', ''delivery_delay_days'', ''delivery_met_promise'',
      ''product_category'', ''product_price_mxn'', ''product_weight_kg'', ''quantity'',
      ''total_amount_mxn'', ''shipping_carrier'', ''shipping_tier'', ''shipping_cost_mxn'',
      ''distance_km'', ''shipping_type'', ''customer_state'', ''customer_region'',
      ''customer_age_group'', ''customer_loyalty_months'', ''purchase_frequency'', ''is_urban'',
      ''payment_method'', ''transaction_status'', ''payment_installments'', ''sales_channel'',
      ''platform_name'', ''is_peak_season'', ''customer_delivery_rating'', ''delivery_issue'',
      ''shipping_cost_to_price_ratio'', ''is_frequent_customer'', ''is_loyal_customer'',
      ''high_value_order'']"
  by (simp add: registro_def)

lemma col_pos_map_of:
  "col_pos (map fst r) c = (case map_of r c of None \<Rightarrow> None | Some v \<Rightarrow> col_pos (map fst r) c)"
  by (induction r) (auto split: option.splits)

lemma col_pos_map_of_Some:
  "col_pos (map fst r) c = Some j \<Longrightarrow> map_of r c = Some (map snd r ! j)"
  by (induction r arbitrary: j) (auto split: if_splits)

lemma col_pos_map_of_None:
  "col_pos (map fst r) c = None \<Longrightarrow> map_of r c = None"
  by (induction r) (auto split: if_splits)

lemma generar_registros_Inr:
  assumes "generar_registros n fks ds = Inr datos"
  shows "length datos = n \<and> (\<forall>i<n. generar_registro i (fks i) (ds i) = Inr (datos ! i))"
  using assms
proof (induction n arbitrary: datos)
  case 0
  then show ?case by simp
next
  case (Suc n)
  from Suc.prems obtain datos0 fila where
    0: "generar_registros n fks ds = Inr datos0" and
    1: "generar_registro n (fks n) (ds n) = Inr fila" and
    d: "datos = datos0 @ [fila]"
    by (auto split: sum.splits)
  from Suc.IH [OF 0] 1 d show ?case
    by (auto simp: nth_append less_Suc_eq)
qed

lemma generar_registros_total:
  assumes "\<forall>i<n. valid_registro_draws (ds i)"
  shows "\<exists>datos. generar_registros n fks ds = Inr datos"
  using assms
proof (induction n)
  case 0
  then show ?case by simp
next
  case (Suc n)
  then obtain datos where 0: "generar_registros n fks ds = Inr datos" by auto
  from Suc.prems have "valid_registro_draws (ds n)" by simp
  from generar_registro_total [OF this] obtain r where
    "generar_registro n (fks n) (ds n) = Inr r" by blast
  with 0 show ?case by simp
qed

lemma generar_registro_claves:
  assumes "generar_registro i fk d = Inr r"
  shows "map fst r
   = [''order_id'', ''customer_id'', ''order_date'', ''shipped_date'', ''delivered_date'',
      ''processing_days'', ''delivery_days'', ''promised_delivery_days'',
      ''actual_delivery_days'', ''delivery_delay_days'', ''delivery_met_promise'',
      ''product_category'', ''product_price_mxn'', ''product_weight_kg'', ''quantity'',
      ''total_amount_mxn'', ''shipping_carrier'', ''shipping_tier'', ''shipping_cost_mxn'',
      ''distance_km'', ''shipping_type'', ''customer_state'', ''customer_region'',
      ''customer_age_group'', ''customer_loyalty_months'', ''purchase_frequency'', ''is_urban'',
      ''payment_method'', ''transaction_status'', ''payment_installments'', ''sales_channel'',
      ''platform_name'', ''is_peak_season'', ''customer_delivery_rating'', ''delivery_issue'',
      ''shipping_cost_to_price_ratio'', ''is_frequent_customer'', ''is_loyal_customer'',
      ''high_value_order'']"
proof -
  from assms obtain f p costo km cli pago calif tiempos base where
    r: "r = registro (''ECOMMX-2024-'' @ format_05d i) (''CUST-'' @ str_int (f_customer fk)) f
           (dias_prometidos_de base (d_express_u d < 15/100))
           (days_between (delivered_date f) (shipped_date f))
           (days_between (delivered_date f) (shipped_date f)
              - dias_prometidos_de base (d_express_u d < 15/100))
           (d_categoria d) p (product_price_mxn p * of_int (quantity p) + costo)
           (d_transportista d) (d_express_u d < 15/100) costo
           km (tipo_distancia_de (d_estado d)) (d_estado d)
           (get_region_from_estado (d_estado d)) cli (d_urbano_u d) pago
           (d_canal d) calif (d_problema d)"
    by (rule generar_registro_Inr)
  show ?thesis by (simp only: r claves_registro)
qed

lemma generar_registro_tipado:
  assumes "generar_registro i fk d = Inr r" "campo r c = Some v"
  shows "valor_tipado c v"
proof -
  from assms(1) obtain f p costo km cli pago calif tiempos base where
    r: "r = registro (''ECOMMX-2024-'' @ format_05d i) (''CUST-'' @ str_int (f_customer fk)) f
           (dias_prometidos_de base (d_express_u d < 15/100))
           (days_between (delivered_date f) (shipped_date f))
           (days_between (delivered_date f) (shipped_date f)
              - dias_prometidos_de base (d_express_u d < 15/100))
           (d_categoria d) p (product_price_mxn p * of_int (quantity p) + costo)
           (d_transportista d) (d_express_u d < 15/100) costo
           km (tipo_distancia_de (d_estado d)) (d_estado d)
           (get_region_from_estado (d_estado d)) cli (d_urbano_u d) pago
           (d_canal d) calif (d_problema d)"
    by (rule generar_registro_Inr)
  consider "c = ''shipping_carrier''" | "c = ''customer_state''" | "c = ''order_id''"
    | "c = ''product_price_mxn''" | "c = ''shipped_date''" | "c = ''order_date''"
    | "c \<notin> set [''shipping_carrier'', ''customer_state'', ''order_id'', ''product_price_mxn'',
                 ''shipped_date'', ''order_date'']"
    by auto
  then show ?thesis
  proof cases
    case 7
    then show ?thesis by (simp add: valor_tipado_def)
  qed (use assms(2) in \<open>auto simp: r campos_registro valor_tipado_def\<close>)
qed

lemma DataFrame_filas:
  assumes "generar_registros n fks ds = Inr datos"
  shows "length (df_rows (DataFrame datos)) = n"
    and "\<forall>i<n. df_rows (DataFrame datos) ! i = map snd (datos ! i)"
  using generar_registros_Inr [OF assms] by (simp_all add: DataFrame_def)

lemma DataFrame_columnas:
  assumes "generar_registros n fks ds = Inr datos" "i < n"
  shows "df_columns (DataFrame datos) = map fst (datos ! i)"
proof -
  note g = generar_registros_Inr [OF assms(1)]
  from g assms(2) have ne: "datos \<noteq> []" by auto
  then obtain r0 rest where d: "datos = r0 # rest" by (cases datos) auto
  from g assms(2) have 0: "generar_registro 0 (fks 0) (ds 0) = Inr (datos ! 0)"
    and i: "generar_registro i (fks i) (ds i) = Inr (datos ! i)" by auto
  from generar_registro_claves [OF 0] generar_registro_claves [OF i]
  have "map fst (datos ! 0) = map fst (datos ! i)" by simp
  with d show ?thesis by (simp add: DataFrame_def)
qed

lemma DataFrame_celda:
  assumes "generar_registros n fks ds = Inr datos" "i < n"
  shows "celda (DataFrame datos) i c = campo (datos ! i) c"
proof -
  note f = DataFrame_filas [OF assms(1)]
  note k = DataFrame_columnas [OF assms]
  show ?thesis
  proof (cases "col_pos (map fst (datos ! i)) c")
    case None
    from col_pos_map_of_None [OF None] None show ?thesis
      by (simp add: celda_eq k campo_def)
  next
    case (Some j)
    from col_pos_map_of_Some [OF Some] Some assms(2) f show ?thesis
      by (simp add: celda_eq k campo_def)
  qed
qed

lemma DataFrame_tipada:
  assumes "generar_registros n fks ds = Inr datos"
  shows "tabla_tipada (DataFrame datos)"
proof -
  note g = generar_registros_Inr [OF assms]
  note f = DataFrame_filas [OF assms]
  have rect: "rectangular (DataFrame datos)"
    unfolding rectangular_def
  proof
    fix fila assume "fila \<in> set (df_rows (DataFrame datos))"
    then obtain i where i: "i < n" and fi: "fila = df_rows (DataFrame datos) ! i"
      using f(1) by (auto simp: in_set_conv_nth)
    from f(2) i fi have "length fila = length (map fst (datos ! i))" by simp
    with DataFrame_columnas [OF assms i] show "length fila = length (df_columns (DataFrame datos))"
      by simp
  qed
  have cp: "columnas_presentes (DataFrame datos)" if "df_rows (DataFrame datos) \<noteq> []"
  proof -
    from that f(1) have 0: "0 < n" by auto
    with g have "generar_registro 0 (fks 0) (ds 0) = Inr (datos ! 0)" by simp
    from generar_registro_claves [OF this] DataFrame_columnas [OF assms 0]
    show ?thesis by (simp add: columnas_presentes_def)
  qed
  have ty: "valor_tipado c v" if "celda (DataFrame datos) i c = Some v" for i c v
  proof -
    from that have i: "i < n" using f(1) by (auto simp: celda_eq split: option.splits if_splits)
    with g have r: "generar_registro i (fks i) (ds i) = Inr (datos ! i)" by simp
    from that have "campo (datos ! i) c = Some v" by (simp add: DataFrame_celda [OF assms i])
    from generar_registro_tipado [OF r this] show ?thesis .
  qed
  from rect cp ty show ?thesis by (auto simp: tabla_tipada_def)
qed

lemma generate_dataset_sin_errores:
  "generate_dataset n fks ds False perm eds
   = (case generar_registros n fks ds of Inl e \<Rightarrow> Inl e | Inr datos \<Rightarrow> Inr (DataFrame datos))"
  by (simp add: generate_dataset_def split: sum.splits)

lemma generate_dataset_con_errores:
  "generate_dataset n fks ds True perm eds
   = (case generar_registros n fks ds of
        Inl e \<Rightarrow> Inl e
      | Inr datos \<Rightarrow> errores_en_tabla (DataFrame datos) (5/100) perm eds)"
  unfolding generate_dataset_def agregar_errores_controlados_def Let_def
  by (auto split: sum.splits)

lemma generate_dataset_total:
  assumes "\<forall>i<n. valid_registro_draws (ds i)" "valid_perm n perm"
    "\<forall>k. valid_error_draws (eds k)"
  shows "\<exists>datos df. generar_registros n fks ds = Inr datos
     \<and> generate_dataset n fks ds True perm eds = Inr df
     \<and> length (df_rows df) = n
     \<and> (\<forall>i. i \<notin> set (take (n div 20) perm) \<longrightarrow> df_rows df ! i = df_rows (DataFrame datos) ! i)
     \<and> (n div 20 = 0 \<longrightarrow> df = DataFrame datos)"
proof -
  from generar_registros_total [OF assms(1)] obtain datos where
    d: "generar_registros n fks ds = Inr datos" by blast
  note f = DataFrame_filas [OF d]
  from assms(2) f(1) have p: "valid_perm (length (df_rows (DataFrame datos))) perm" by simp
  from errores_en_tabla_marco [OF DataFrame_tipada [OF d] p assms(3)]
  obtain df where e: "errores_en_tabla (DataFrame datos) (5/100) perm eds = Inr df"
    and fr: "\<forall>i. i \<notin> set (take (n div 20) perm) \<longrightarrow> df_rows df ! i = df_rows (DataFrame datos) ! i"
    and len: "length (df_rows df) = n"
    using f(1) by auto
  have z: "df = DataFrame datos" if "n div 20 = 0"
    using e that f(1) by (simp only: errores_en_tabla_5) simp
  from d e have "generate_dataset n fks ds True perm eds = Inr df"
    by (simp only: generate_dataset_con_errores sum.case)
  with d fr len z show ?thesis by (intro exI [of _ datos] exI [of _ df]) simp
qed

section \<open>Runs with the same seed\<close>

lemma campo_customer_id:
  "campo (registro oid cid f prom reales dif cat p monto tr ex costo km tipo est reg cli urb pago canal calif prob) ''customer_id'' = Some (PyStr cid)"
  by (simp add: campo_def registro_def)

lemma generar_registro_faker:
  assumes "generar_registro i fk d = Inr r"
  shows "campo r ''order_date'' = Some (PyDate (date_time_between_1y fk))"
    and "campo r ''customer_id'' = Some (PyStr (''CUST-'' @ str_int (f_customer fk)))"
proof -
  from assms obtain f p costo km cli pago calif tiempos base where
    F: "generar_fechas_realistas (d_transportista d) (d_estado d) fk (d_fechas d) = Inr f" and
    r: "r = registro (''ECOMMX-2024-'' @ format_05d i) (''CUST-'' @ str_int (f_customer fk)) f
           (dias_prometidos_de base (d_express_u d < 15/100))
           (days_between (delivered_date f) (shipped_date f))
           (days_between (delivered_date f) (shipped_date f)
              - dias_prometidos_de base (d_express_u d < 15/100))
           (d_categoria d) p (product_price_mxn p * of_int (quantity p) + costo)
           (d_transportista d) (d_express_u d < 15/100) costo
           km (tipo_distancia_de (d_estado d)) (d_estado d)
           (get_region_from_estado (d_estado d)) cli (d_urbano_u d) pago
           (d_canal d) calif (d_problema d)"
    by (rule generar_registro_Inr)
  show "campo r ''order_date'' = Some (PyDate (date_time_between_1y fk))"
    by (simp only: r campos_registro generar_fechas_Inr(1) [OF F])
  show "campo r ''customer_id'' = Some (PyStr (''CUST-'' @ str_int (f_customer fk)))"
    by (simp only: r campo_customer_id)
qed

lemma un_registro:
  assumes "valid_registro_draws d"
  shows "\<exists>df. generate_dataset 1 (siempre fk) (siempre d) True [0] (siempre error_missing) = Inr df
     \<and> celda df 0 ''order_date'' = Some (PyDate (date_time_between_1y fk))
     \<and> celda df 0 ''customer_id'' = Some (PyStr (''CUST-'' @ str_int (f_customer fk)))"
proof -
  have v: "\<forall>i<1. valid_registro_draws (siempre d i)" using assms by (simp add: siempre_def)
  have p: "valid_perm 1 [0]" by (auto simp: valid_perm_def)
  have e: "\<forall>k. valid_error_draws (siempre error_missing k)"
    by (simp add: siempre_def valid_error_draws_def error_missing_def unit_draw_def)
  from generate_dataset_total [OF v p e, of "siempre fk"] obtain datos df where
    d: "generar_registros 1 (siempre fk) (siempre d) = Inr datos" and
    g: "generate_dataset 1 (siempre fk) (siempre d) True [0] (siempre error_missing) = Inr df" and
    df: "df = DataFrame datos" by auto
  from generar_registros_Inr [OF d] have r: "generar_registro 0 fk d = Inr (datos ! 0)"
    by (simp add: siempre_def)
  have c: "celda df 0 c = campo (datos ! 0) c" for c
    unfolding df by (rule DataFrame_celda [OF d]) simp
  from g show ?thesis by (simp add: c generar_registro_faker [OF r])
qed

text \<open>
  C2. The claim: two runs with the same seed and row count produce the same records and
  the same bytes. The code: the seed goes to numpy's generator and to Python's
  \<^verbatim>\<open>random\<close>, not to the Faker instance, and \<^verbatim>\<open>date_time_between\<close> counts back from the
  clock. Here three runs of one record with errors have the same draws of numpy. The
  second has Faker's draws of the first and reads the clock one second later: its order
  date is another. The third has the clock of the first and another customer number from
  Faker: its customer id is another. Their datasets differ from the first.
\<close>

theorem same_seed_other_dataset:
  "valid_registro_draws draws_ejemplo \<and> valid_faker_draws faker_ejemplo
   \<and> valid_faker_draws faker_mas_tarde \<and> valid_faker_draws faker_otro_cliente
   \<and> (\<exists>df1 df2 df3.
        generate_dataset 1 (siempre faker_ejemplo) (siempre draws_ejemplo) True [0]
          (siempre error_missing) = Inr df1
      \<and> generate_dataset 1 (siempre faker_mas_tarde) (siempre draws_ejemplo) True [0]
          (siempre error_missing) = Inr df2
      \<and> generate_dataset 1 (siempre faker_otro_cliente) (siempre draws_ejemplo) True [0]
          (siempre error_missing) = Inr df3
      \<and> celda df1 0 ''order_date'' = Some (PyDate 1673443264000000)
      \<and> celda df2 0 ''order_date'' = Some (PyDate 1673443265000000)
      \<and> celda df1 0 ''customer_id'' = Some (PyStr ''CUST-12345'')
      \<and> celda df3 0 ''customer_id'' = Some (PyStr ''CUST-54321'')
      \<and> df1 \<noteq> df2 \<and> df1 \<noteq> df3)"
proof -
  note v = valid_draws_ejemplo
  have vf: "valid_faker_draws faker_ejemplo" "valid_faker_draws faker_mas_tarde"
    "valid_faker_draws faker_otro_cliente"
    by (simp_all add: valid_faker_draws_def faker_ejemplo_def faker_mas_tarde_def
        faker_otro_cliente_def un_ano_def)
  have t: "date_time_between_1y faker_ejemplo = 1673443264000000"
    "date_time_between_1y faker_mas_tarde = 1673443265000000"
    "date_time_between_1y faker_otro_cliente = 1673443264000000"
    by (simp_all add: date_time_between_1y_def faker_ejemplo_def faker_mas_tarde_def
        faker_otro_cliente_def un_ano_def)
  have c: "''CUST-'' @ str_int (f_customer faker_ejemplo) = ''CUST-12345''"
    "''CUST-'' @ str_int (f_customer faker_mas_tarde) = ''CUST-12345''"
    "''CUST-'' @ str_int (f_customer faker_otro_cliente) = ''CUST-54321''"
    by (simp_all add: str_int_def str_nat.simps digit_char_def faker_ejemplo_def
        faker_mas_tarde_def faker_otro_cliente_def)
  from un_registro [OF v, of faker_ejemplo] obtain df1 where
    1: "generate_dataset 1 (siempre faker_ejemplo) (siempre draws_ejemplo) True [0]
          (siempre error_missing) = Inr df1"
    "celda df1 0 ''order_date'' = Some (PyDate 1673443264000000)"
    "celda df1 0 ''customer_id'' = Some (PyStr ''CUST-12345'')"
    by (auto simp only: t c)
  from un_registro [OF v, of faker_mas_tarde] obtain df2 where
    2: "generate_dataset 1 (siempre faker_mas_tarde) (siempre draws_ejemplo) True [0]
          (siempre error_missing) = Inr df2"
    "celda df2 0 ''order_date'' = Some (PyDate 1673443265000000)"
    by (auto simp only: t c)
  from un_registro [OF v, of faker_otro_cliente] obtain df3 where
    3: "generate_dataset 1 (siempre faker_otro_cliente) (siempre draws_ejemplo) True [0]
          (siempre error_missing) = Inr df3"
    "celda df3 0 ''customer_id'' = Some (PyStr ''CUST-54321'')"
    by (auto simp only: t c)
  from 1(2) 2(2) have n12: "df1 \<noteq> df2" by auto
  from 1(3) 3(2) have n13: "df1 \<noteq> df3" by auto
  from v vf 1 2 3 n12 n13 show ?thesis by blast
qed

section \<open>The sample file\<close>






section \<open>The region table and the state list\<close>

lemma valid_draws_durango: "valid_registro_draws draws_durango"
  using valid_draws_ejemplo
  by (simp add: valid_registro_draws_def draws_durango_def estados_mexico_def)

lemma registro_durango:
  "\<exists>r. generar_registro 0 faker_ejemplo draws_durango = Inr r
     \<and> campo r ''customer_state'' = Some (PyStr ''Durango'')
     \<and> campo r ''customer_region'' = Some (PyStr ''Centro'')"
proof -
  from generar_registro_total [OF valid_draws_durango] obtain r where
    R: "generar_registro 0 faker_ejemplo draws_durango = Inr r" by blast
  from R obtain f p costo km cli pago calif tiempos base where
    r: "r = registro (''ECOMMX-2024-'' @ format_05d 0)
           (''CUST-'' @ str_int (f_customer faker_ejemplo)) f
           (dias_prometidos_de base (d_express_u draws_durango < 15/100))
           (days_between (delivered_date f) (shipped_date f))
           (days_between (delivered_date f) (shipped_date f)
              - dias_prometidos_de base (d_express_u draws_durango < 15/100))
           (d_categoria draws_durango) p (product_price_mxn p * of_int (quantity p) + costo)
           (d_transportista draws_durango) (d_express_u draws_durango < 15/100) costo
           km (tipo_distancia_de (d_estado draws_durango)) (d_estado draws_durango)
           (get_region_from_estado (d_estado draws_durango)) cli (d_urbano_u draws_durango) pago
           (d_canal draws_durango) calif (d_problema draws_durango)"
    by (rule generar_registro_Inr)
  have e: "d_estado draws_durango = ''Durango''" by (simp add: draws_durango_def)
  have g: "get_region_from_estado ''Durango'' = ''Centro''"
    by (simp add: regiones_def get_region_from_estado_def)
  show ?thesis
    by (rule exI [of _ r]) (simp only: R r campos_registro e g simp_thms)
qed

text \<open>
  C1. The claim: every state of the 32-state list lies in exactly one region of the region
  table, so the default of the lookup is never used. The code: the state list has 32
  states and the table 5 regions, but the table lists 29 states. Durango, San Luis
  Potosi and Zacatecas are in no region; for them the loop runs to its end and the lookup
  returns the default \<open>Centro\<close>, whose list does not hold them: the record of an order to
  Durango has the region \<open>Centro\<close>.
\<close>

theorem region_table_misses_states:
  "length estados_mexico = 32 \<and> distinct estados_mexico \<and> length regiones = 5
   \<and> filter (\<lambda>estado. region_search regiones estado = None) estados_mexico
       = [''Durango'', ''San Luis Potos'' @ [CHR 0xED], ''Zacatecas'']
   \<and> get_region_from_estado ''Durango'' = ''Centro''
   \<and> map_of regiones ''Centro''
       = Some [''Ciudad de M'' @ [CHR 0xE9] @ ''xico'', ''M'' @ [CHR 0xE9] @ ''xico'',
               ''Puebla'', ''Morelos'', ''Tlaxcala'', ''Hidalgo'',
               ''Quer'' @ [CHR 0xE9] @ ''taro'']
   \<and> valid_registro_draws draws_durango
   \<and> (\<exists>r. generar_registro 0 faker_ejemplo draws_durango = Inr r
         \<and> campo r ''customer_state'' = Some (PyStr ''Durango'')
         \<and> campo r ''customer_region'' = Some (PyStr ''Centro''))"
proof -
  have "length estados_mexico = 32 \<and> distinct estados_mexico \<and> length regiones = 5
   \<and> filter (\<lambda>estado. region_search regiones estado = None) estados_mexico
       = [''Durango'', ''San Luis Potos'' @ [CHR 0xED], ''Zacatecas'']
   \<and> get_region_from_estado ''Durango'' = ''Centro''
   \<and> map_of regiones ''Centro''
       = Some [''Ciudad de M'' @ [CHR 0xE9] @ ''xico'', ''M'' @ [CHR 0xE9] @ ''xico'',
               ''Puebla'', ''Morelos'', ''Tlaxcala'', ''Hidalgo'',
               ''Quer'' @ [CHR 0xE9] @ ''taro'']"
    by (simp add: estados_mexico_def regiones_def get_region_from_estado_def)
  with valid_draws_durango registro_durango show ?thesis by (simp only: simp_thms)
qed

section \<open>The three dates of an order\<close>

lemma registro_fechas_en_orden:
  assumes R: "generar_registro i fk d = Inr r" and v: "valid_registro_draws d"
  shows "fechas_en_orden (campo r)"
proof -
  from R obtain f p costo km cli pago calif tiempos base where
    F: "generar_fechas_realistas (d_transportista d) (d_estado d) fk (d_fechas d) = Inr f" and
    r: "r = registro (''ECOMMX-2024-'' @ format_05d i) (''CUST-'' @ str_int (f_customer fk)) f
           (dias_prometidos_de base (d_express_u d < 15/100))
           (days_between (delivered_date f) (shipped_date f))
           (days_between (delivered_date f) (shipped_date f)
              - dias_prometidos_de base (d_express_u d < 15/100))
           (d_categoria d) p (product_price_mxn p * of_int (quantity p) + costo)
           (d_transportista d) (d_express_u d < 15/100) costo
           km (tipo_distancia_de (d_estado d)) (d_estado d)
           (get_region_from_estado (d_estado d)) cli (d_urbano_u d) pago
           (d_canal d) calif (d_problema d)"
    by (rule generar_registro_Inr)
  note f = generar_fechas_Inr [OF F]
  from v have proc: "1 \<le> processing_days f" "processing_days f \<le> 3"
    by (auto simp: f(2) valid_registro_draws_def valid_fechas_draws_def)
  have ent: "delivered_date f = shipped_date f + timedelta_days (max 1 (delivery_days f))"
    by (rule f(4))
  have reales: "days_between (delivered_date f) (shipped_date f) = max 1 (delivery_days f)"
    by (simp only: ent days_between_timedelta)
  have o1: "order_date f \<le> shipped_date f"
    using proc by (simp add: f(3) timedelta_days_def)
  have o2: "shipped_date f \<le> delivered_date f"
    by (simp add: ent timedelta_days_def)
  show ?thesis
    unfolding fechas_en_orden_def
    apply (rule exI [of _ "order_date f"])
    apply (rule exI [of _ "shipped_date f"])
    apply (rule exI [of _ "delivered_date f"])
    apply (rule exI [of _ "processing_days f"])
    apply (rule exI [of _ "max 1 (delivery_days f)"])
    apply (simp only: r campos_registro reales)
    using proc o1 o2 f(3) ent apply simp
    done
qed

lemma generate_dataset_filas:
  assumes "\<forall>i<n. valid_registro_draws (ds i)" "valid_perm n perm"
    "\<forall>k. valid_error_draws (eds k)"
  shows "\<exists>datos df. generar_registros n fks ds = Inr datos
     \<and> generate_dataset n fks ds True perm eds = Inr df
     \<and> length (df_rows df) = n
     \<and> (\<forall>i<n. i \<notin> set (take (n div 20) perm) \<longrightarrow> (\<forall>c. celda df i c = campo (datos ! i) c))"
proof -
  from generate_dataset_total [OF assms, of fks] obtain datos df where
    d: "generar_registros n fks ds = Inr datos" and
    g: "generate_dataset n fks ds True perm eds = Inr df" and
    len: "length (df_rows df) = n" and
    fr: "\<forall>i. i \<notin> set (take (n div 20) perm) \<longrightarrow> df_rows df ! i = df_rows (DataFrame datos) ! i"
    by blast
  note f = DataFrame_filas [OF d]
  from g d have e: "errores_loop (DataFrame datos) (take (n div 20) perm) 0 eds = Inr df"
    by (simp only: generate_dataset_con_errores sum.case errores_en_tabla_5 f(1))
  have cols: "df_columns df = df_columns (DataFrame datos)"
  proof (cases "n = 0")
    case True
    with e show ?thesis by simp
  next
    case False
    with DataFrame_tipada [OF d] f(1) have cp: "columnas_presentes (DataFrame datos)"
      by (auto simp: tabla_tipada_def)
    from assms(3) have "\<And>j. e_columna (eds j) \<in> set [''product_price_mxn'',
        ''shipping_cost_mxn'', ''customer_loyalty_months'', ''distance_km'']"
      by (simp add: valid_error_draws_def)
    from errores_loop_marco [OF e cp this] show ?thesis by simp
  qed
  have "celda df i c = campo (datos ! i) c"
    if "i < n" "i \<notin> set (take (n div 20) perm)" for i c
  proof -
    from fr that have "df_rows df ! i = df_rows (DataFrame datos) ! i" by simp
    with cols len f(1) have "celda df i c = celda (DataFrame datos) i c"
      by (auto simp: celda_eq split: option.splits)
    with DataFrame_celda [OF d that(1)] show ?thesis by simp
  qed
  with d g len show ?thesis by blast
qed

text \<open>
  C7. For valid draws the loop body returns a record whose dates are ordered: the order
  date is at most the shipped date and the shipped date at most the delivered date; the
  shipped date is the order date plus the 1 to 3 processing days of the record, and the
  delivered date is the shipped date plus the actual delivery days, which are at least 1.
  So are the dates of every row of the dataset without errors, and of every row of the
  dataset with errors that the pass did not select.
\<close>

theorem dates_ordered:
  "(valid_registro_draws d \<longrightarrow>
      (\<exists>r. generar_registro i fk d = Inr r \<and> fechas_en_orden (campo r)))
   \<and> ((\<forall>i<n. valid_registro_draws (ds i)) \<longrightarrow>
      (\<exists>df. generate_dataset n fks ds False perm eds = Inr df \<and> length (df_rows df) = n
         \<and> (\<forall>i<n. fechas_en_orden (celda df i))))
   \<and> ((\<forall>i<n. valid_registro_draws (ds i)) \<and> valid_perm n perm
        \<and> (\<forall>k. valid_error_draws (eds k)) \<longrightarrow>
      (\<exists>df. generate_dataset n fks ds True perm eds = Inr df \<and> length (df_rows df) = n
         \<and> (\<forall>i<n. i \<notin> set (take (n div 20) perm) \<longrightarrow> fechas_en_orden (celda df i))))"
proof (intro conjI impI)
  assume v: "valid_registro_draws d"
  from generar_registro_total [OF v] obtain r where R: "generar_registro i fk d = Inr r"
    by blast
  from registro_fechas_en_orden [OF R v] R
  show "\<exists>r. generar_registro i fk d = Inr r \<and> fechas_en_orden (campo r)" by blast
next
  assume v: "\<forall>i<n. valid_registro_draws (ds i)"
  from generar_registros_total [OF v] obtain datos where
    d: "generar_registros n fks ds = Inr datos" by blast
  note g = generar_registros_Inr [OF d]
  have "fechas_en_orden (celda (DataFrame datos) i)" if "i < n" for i
  proof -
    from g that v have "fechas_en_orden (campo (datos ! i))"
      by (auto intro: registro_fechas_en_orden)
    moreover have "celda (DataFrame datos) i = campo (datos ! i)"
      by (rule ext) (rule DataFrame_celda [OF d that])
    ultimately show ?thesis by simp
  qed
  with d DataFrame_filas(1) [OF d]
  show "\<exists>df. generate_dataset n fks ds False perm eds = Inr df \<and> length (df_rows df) = n
         \<and> (\<forall>i<n. fechas_en_orden (celda df i))"
    by (simp add: generate_dataset_sin_errores)
next
  assume a: "(\<forall>i<n. valid_registro_draws (ds i)) \<and> valid_perm n perm
        \<and> (\<forall>k. valid_error_draws (eds k))"
  then have v: "\<forall>i<n. valid_registro_draws (ds i)" and p: "valid_perm n perm"
    and e: "\<forall>k. valid_error_draws (eds k)" by simp_all
  from generate_dataset_filas [OF v p e, of fks] obtain datos df where
    d: "generar_registros n fks ds = Inr datos" and
    g: "generate_dataset n fks ds True perm eds = Inr df" and
    len: "length (df_rows df) = n" and
    c: "\<forall>i<n. i \<notin> set (take (n div 20) perm) \<longrightarrow> (\<forall>c. celda df i c = campo (datos ! i) c)"
    by blast
  note gr = generar_registros_Inr [OF d]
  have "fechas_en_orden (celda df i)" if "i < n" "i \<notin> set (take (n div 20) perm)" for i
  proof -
    from gr that(1) v have "fechas_en_orden (campo (datos ! i))"
      by (auto intro: registro_fechas_en_orden)
    moreover from c that have "celda df i = campo (datos ! i)" by (intro ext) simp
    ultimately show ?thesis by simp
  qed
  with g len
  show "\<exists>df. generate_dataset n fks ds True perm eds = Inr df \<and> length (df_rows df) = n
         \<and> (\<forall>i<n. i \<notin> set (take (n div 20) perm) \<longrightarrow> fechas_en_orden (celda df i))"
    by blast
qed

theorem dates_ordered_witness:
  "valid_registro_draws draws_ejemplo \<and> valid_perm 40 [0..<40]
   \<and> valid_error_draws error_missing
   \<and> (\<exists>r. generar_registro 0 faker_ejemplo draws_ejemplo = Inr r \<and> fechas_en_orden (campo r))
   \<and> (\<exists>df. generate_dataset 40 (siempre faker_ejemplo) (siempre draws_ejemplo) False [0..<40]
              (siempre error_missing) = Inr df \<and> length (df_rows df) = 40
         \<and> (\<forall>i<40. fechas_en_orden (celda df i)))
   \<and> (\<exists>df. generate_dataset 40 (siempre faker_ejemplo) (siempre draws_ejemplo) True [0..<40]
              (siempre error_missing) = Inr df \<and> length (df_rows df) = 40
         \<and> (\<forall>i<40. i \<notin> set (take (40 div 20) [0..<40]) \<longrightarrow> fechas_en_orden (celda df i)))"
proof -
  note v = valid_draws_ejemplo
  have p: "valid_perm 40 [0..<40]" by (auto simp: valid_perm_def)
  have e: "valid_error_draws error_missing"
    by (simp add: valid_error_draws_def error_missing_def unit_draw_def)
  have vs: "\<forall>i<40. valid_registro_draws (siempre draws_ejemplo i)"
    using v by (simp add: siempre_def)
  have es: "\<forall>k. valid_error_draws (siempre error_missing k)" using e by (simp add: siempre_def)
  note t = dates_ordered [where d = draws_ejemplo and i = 0 and fk = faker_ejemplo and n = 40
      and ds = "siempre draws_ejemplo" and fks = "siempre faker_ejemplo" and perm = "[0..<40]"
      and eds = "siempre error_missing"]
  from t [THEN conjunct1, THEN mp, OF v]
    t [THEN conjunct2, THEN conjunct1, THEN mp, OF vs]
    t [THEN conjunct2, THEN conjunct2, THEN mp, OF conjI [OF vs conjI [OF p es]]]
    v p e
  show ?thesis by (intro conjI)
qed

end
